theory Spec2Isabelle
  imports
    Complex_Main
    "HOL-Library.Word"
    "HOL-Library.Signed_Division"
    "HOL-Library.Char_ord"
    "HOL-Library.List_Lexorder"
begin

section \<open>The peer-group reconciler of worker/peergrouper/desired.go\<close>

text \<open>
  The development embeds \<^verbatim>\<open>src/worker/peergrouper/desired.go\<close> function by function.
  Go maps are partial functions \<open>'k \<rightharpoonup> 'v\<close>; a Go map is finite, which the theorems that
  iterate over one assume of the input (\<open>finite (dom m)\<close>). Slices are lists. A pointer
  receiver that is mutated becomes a value that is passed in and returned. A nil-pointer
  dereference (a run-time panic) is the value \<open>None\<close> of the functions that can reach one.
  The calls of the logger, and \<^verbatim>\<open>getLogMessage\<close> which only formats a message for it, have
  no effect on what the functions return and are left out.
\<close>

subsection \<open>Integers and strings\<close>

text \<open>
  Go's \<^verbatim>\<open>int\<close> is a 64-bit two's-complement integer on the platforms a controller runs on.
  Member ids and \<^verbatim>\<open>maxMemberId\<close> are incremented by the code, so they are 64-bit words:
  \<open>+\<close> wraps around, \<open><s\<close> and \<open>\<le>s\<close> compare them as signed values. The voter counts of
  \<^verbatim>\<open>reviewPeerGroupChanges\<close> are bounded by the sizes of a map and of slices held in memory
  and cannot wrap; they are \<open>int\<close>, and Go's remainder \<^verbatim>\<open>%\<close>, which truncates towards zero, is
  \<open>smod\<close>. The Mongo port and the votes of a member are only passed on or compared with
  0; they are \<open>int\<close> too. Strings are byte lists, ordered byte-wise and lexicographically
  as \<^verbatim>\<open>sort.Strings\<close> orders them.
\<close>

type_synonym go_int = "64 word"

text \<open>\<^verbatim>\<open>const jujuMachineKey = "juju-machine-id"\<close>\<close>

definition jujuMachineKey :: string where
  "jujuMachineKey = ''juju-machine-id''"

subsection \<open>Types of the replicaset package and the machine tracker\<close>

text \<open>
  Modelled from the spec: the types \<^verbatim>\<open>replicaset.Member\<close>, \<^verbatim>\<open>replicaset.MemberStatus\<close> and
  \<^verbatim>\<open>replicaset.MemberState\<close> are declared in github.com/juju/replicaset, which is not among
  the sources. The spec (section 3) gives a member a numeric member-id, an address string, a
  tag mapping and the nullable votes and priority; and a status a member-id, a state in
  \<open>{Primary, Secondary, Startup, Recovering, \<dots>}\<close> and a health flag. Only the fields that
  desired.go reads or writes are kept. \<^verbatim>\<open>Votes\<close> is a \<^verbatim>\<open>*int\<close> and \<^verbatim>\<open>Priority\<close> a
  \<^verbatim>\<open>*float64\<close>: \<open>None\<close> is the nil pointer. The code only ever stores \<open>0.0\<close> in a priority.
  The states are the constants of the package in their order, so that \<open>StartupState\<close> is
  the zero value that a lookup of a missing key in a Go map of statuses yields.
\<close>

datatype MemberState =
    StartupState
  | PrimaryState
  | SecondaryState
  | RecoveringState
  | FatalState
  | Startup2State
  | UnknownState
  | ArbiterState
  | DownState
  | RollbackState
  | ShunnedState

record Member =
  Id :: go_int
  Address :: string
  Tags :: "string \<rightharpoonup> string"
  Votes :: "int option"
  Priority :: "real option"

text \<open>The fields of a status carry the prefix \<open>Status\<close> where a member has a field of the
  same name. A machine id bound in a definition is written \<open>mid\<close>, as \<open>id\<close> is a
  constant of HOL.\<close>

record MemberStatus =
  StatusId :: go_int
  StatusAddress :: string
  Healthy :: bool
  State :: MemberState

text \<open>The zero value of \<^verbatim>\<open>replicaset.MemberStatus\<close>, which \<^verbatim>\<open>info.statuses[id]\<close> yields for
  a machine id that has no status.\<close>

definition zeroStatus :: MemberStatus where
  "zeroStatus = \<lparr>StatusId = 0, StatusAddress = [], Healthy = False, State = StartupState\<rparr>"

text \<open>
  The errors the functions return. \<^verbatim>\<open>newPeerGroupInfo\<close> returns
  \<^verbatim>\<open>fmt.Errorf("current member set is empty")\<close>, \<^verbatim>\<open>checkExtraMembers\<close> returns
  \<^verbatim>\<open>fmt.Errorf("voting non-machine member %v found in peer group", member)\<close>, and
  \<^verbatim>\<open>getMongoAddresses\<close> passes on the error of the tracker's \<^verbatim>\<open>SelectMongoAddress\<close>,
  here its message. The names are the spec's (section 7).
\<close>

datatype error =
    ErrEmptyMemberSet
  | ErrExtraVotingMember Member
  | ErrNoUsableAddress string

text \<open>
  Modelled from the spec: \<^verbatim>\<open>machineTracker\<close> is declared in machinetracker.go, which is not
  among the sources. desired.go calls two of its methods, which the spec (section 6) lists:
  \<^verbatim>\<open>WantsVote() \<rightarrow> bool\<close> and \<^verbatim>\<open>SelectMongoAddress(port, haSpace) \<rightarrow> (string, error)\<close>. A tracker
  is the pair of what they answer; the address selector is a parameter of the model, \<open>Inl\<close>
  of a message when it fails and \<open>Inr\<close> of the address when it does not. The
  map of trackers holds no nil pointer: \<^verbatim>\<open>possiblePeerGroupChanges\<close> calls \<^verbatim>\<open>WantsVote\<close> on
  every value of the map.
\<close>

record machineTracker =
  WantsVote :: bool
  SelectMongoAddress :: "int \<Rightarrow> string \<Rightarrow> string + string"

subsection \<open>peerGroupInfo and peerGroupChanges\<close>

record peerGroupInfo =
  machines :: "string \<rightharpoonup> machineTracker"
  recognised :: "string \<rightharpoonup> Member"
  statuses :: "string \<rightharpoonup> MemberStatus"
  extra :: "Member list"
  maxMemberId :: go_int
  mongoPort :: int
  haSpace :: string

record peerGroupChanges =
  isChanged :: bool
  toRemoveVote :: "string list"
  toAddVote :: "string list"
  toKeepVoting :: "string list"
  toKeepNonVoting :: "string list"
  toKeepCreateNonVotingMember :: "string list"
  machineVoting :: "string \<rightharpoonup> bool"
  addrs :: "string \<rightharpoonup> string"
  members :: "string \<rightharpoonup> Member"

text \<open>
  \<^verbatim>\<open>for k, v := range m\<close> visits every entry of a map once, in an order the language leaves
  open. The model visits the keys in sorted order. Every loop of desired.go over a map either
  sorts the keys itself or computes something that does not depend on the order (a count,
  one independent store per key), except that \<^verbatim>\<open>getMongoAddresses\<close> returns the error of the
  first machine it meets whose selector fails.
\<close>

definition rangeMap :: "(string \<rightharpoonup> 'v) \<Rightarrow> (string \<times> 'v) list" where
  "rangeMap m = map (\<lambda>k. (k, the (m k))) (sorted_list_of_set (dom m))"

subsection \<open>newPeerGroupInfo\<close>

text \<open>The inner loop over \<^verbatim>\<open>statuses\<close>: every status whose id is the member's is stored
  under the machine id, the last one staying.\<close>

definition linkStatuses ::
  "string \<Rightarrow> Member \<Rightarrow> MemberStatus list \<Rightarrow> (string \<rightharpoonup> MemberStatus) \<Rightarrow> (string \<rightharpoonup> MemberStatus)" where
  "linkStatuses mid m stss st =
     fold (\<lambda>sts st'. if StatusId sts = Id m then st'(mid \<mapsto> sts) else st') stss st"

text \<open>One iteration of the loop over \<^verbatim>\<open>members\<close>.\<close>

definition addMember ::
  "(string \<rightharpoonup> machineTracker) \<Rightarrow> MemberStatus list \<Rightarrow> Member \<Rightarrow> peerGroupInfo \<Rightarrow> peerGroupInfo" where
  "addMember ms stss m info =
     (let (found, info1) =
            (case Tags m jujuMachineKey of
               Some mid \<Rightarrow>
                 (let (found', info') =
                        (if ms mid \<noteq> None
                         then (True, info\<lparr>recognised := (recognised info)(mid \<mapsto> m)\<rparr>)
                         else (False, info))
                  in (found', info'\<lparr>statuses := linkStatuses mid m stss (statuses info')\<rparr>))
             | None \<Rightarrow> (False, info));
          info2 = (if \<not> found then info1\<lparr>extra := extra info1 @ [m]\<rparr> else info1)
      in if maxMemberId info2 <s Id m then info2\<lparr>maxMemberId := Id m\<rparr> else info2)"

definition newPeerGroupInfo ::
  "(string \<rightharpoonup> machineTracker) \<Rightarrow> MemberStatus list \<Rightarrow> Member list \<Rightarrow> int \<Rightarrow> string
     \<Rightarrow> error + peerGroupInfo" where
  "newPeerGroupInfo ms stss mems port space =
     (if length mems = 0 then Inl ErrEmptyMemberSet
      else Inr (fold (addMember ms stss) mems
                  \<lparr>machines = ms, recognised = Map.empty, statuses = Map.empty, extra = [],
                   maxMemberId = - 1, mongoPort = port, haSpace = space\<rparr>))"

subsection \<open>The helpers of desiredPeerGroup\<close>

definition isVotingMember :: "Member \<Rightarrow> bool" where
  "isVotingMember m = (case Votes m of None \<Rightarrow> True | Some v \<Rightarrow> v > 0)"

text \<open>\<^verbatim>\<open>info.statuses[id].State == replicaset.PrimaryState\<close>: a machine id with no status
  reads the zero status.\<close>

definition isPrimaryMember :: "peerGroupInfo \<Rightarrow> string \<Rightarrow> bool" where
  "isPrimaryMember info mid =
     (State (case statuses info mid of None \<Rightarrow> zeroStatus | Some sts \<Rightarrow> sts) = PrimaryState)"

definition isReady :: "MemberStatus \<Rightarrow> bool" where
  "isReady status = (Healthy status \<and> (State status = PrimaryState \<or> State status = SecondaryState))"

definition setMemberVoting :: "Member \<Rightarrow> bool \<Rightarrow> Member" where
  "setMemberVoting member voting =
     (if voting then member\<lparr>Votes := None, Priority := None\<rparr>
      else member\<lparr>Votes := Some 0, Priority := Some 0\<rparr>)"

text \<open>\<^verbatim>\<open>initNewReplicaSet\<close> copies every recognised member into a map of its own, one fresh
  pointer per key: no two keys share a member, so the map of pointers is a map of values.\<close>

definition initNewReplicaSet :: "peerGroupInfo \<Rightarrow> (string \<rightharpoonup> Member)" where
  "initNewReplicaSet info = recognised info"

text \<open>\<^verbatim>\<open>checkExtraMembers\<close> returns at the first voting member of \<^verbatim>\<open>extra\<close>.\<close>

definition checkExtraMembers :: "peerGroupChanges \<Rightarrow> Member list \<Rightarrow> error + peerGroupChanges" where
  "checkExtraMembers p ex =
     (case find isVotingMember ex of
        Some member \<Rightarrow> Inl (ErrExtraVotingMember member)
      | None \<Rightarrow> Inr (if length ex > 0 then p\<lparr>isChanged := True\<rparr> else p))"

text \<open>The loop of \<^verbatim>\<open>getMongoAddresses\<close> over the machines, on the entries still to visit.\<close>

fun selectAddresses ::
  "peerGroupInfo \<Rightarrow> (string \<times> machineTracker) list \<Rightarrow> (string \<rightharpoonup> string) \<Rightarrow> error + (string \<rightharpoonup> string)" where
  "selectAddresses info [] a = Inr a"
| "selectAddresses info ((mid, m) # rest) a =
     (case SelectMongoAddress m (mongoPort info) (haSpace info) of
        Inl err \<Rightarrow> Inl (ErrNoUsableAddress err)
      | Inr addr \<Rightarrow> selectAddresses info rest (a(mid \<mapsto> addr)))"

definition getMongoAddresses :: "peerGroupChanges \<Rightarrow> peerGroupInfo \<Rightarrow> error + peerGroupChanges" where
  "getMongoAddresses p info =
     (case selectAddresses info (rangeMap (machines info)) Map.empty of
        Inl err \<Rightarrow> Inl err
      | Inr a \<Rightarrow> Inr (p\<lparr>addrs := a\<rparr>))"

subsection \<open>possiblePeerGroupChanges: the classifier\<close>

text \<open>The body of the loop over the sorted machine ids: \<open>m\<close> is \<^verbatim>\<open>info.machines[id]\<close>.\<close>

definition classify :: "peerGroupInfo \<Rightarrow> string \<times> machineTracker \<Rightarrow> peerGroupChanges \<Rightarrow> peerGroupChanges" where
  "classify info = (\<lambda>(mid, m) p.
     (let member = members p mid;
          isVoting = (case member of None \<Rightarrow> False | Some mem \<Rightarrow> isVotingMember mem);
          wantsVote = WantsVote m
      in if wantsVote \<and> isVoting then p\<lparr>toKeepVoting := toKeepVoting p @ [mid]\<rparr>
         else if wantsVote \<and> \<not> isVoting then
           (if (case statuses info mid of None \<Rightarrow> False | Some status \<Rightarrow> isReady status)
            then p\<lparr>toAddVote := toAddVote p @ [mid]\<rparr>
            else if member \<noteq> None then p\<lparr>toKeepNonVoting := toKeepNonVoting p @ [mid]\<rparr>
            else p\<lparr>toKeepCreateNonVotingMember := toKeepCreateNonVotingMember p @ [mid]\<rparr>)
         else if \<not> wantsVote \<and> isVoting then p\<lparr>toRemoveVote := toRemoveVote p @ [mid]\<rparr>
         else if \<not> wantsVote \<and> \<not> isVoting then p\<lparr>toKeepNonVoting := toKeepNonVoting p @ [mid]\<rparr>
         else p))"

definition possiblePeerGroupChanges :: "peerGroupChanges \<Rightarrow> peerGroupInfo \<Rightarrow> peerGroupChanges" where
  "possiblePeerGroupChanges p info = fold (classify info) (rangeMap (machines info)) p"

subsection \<open>reviewPeerGroupChanges: the quorum adjuster\<close>

definition currVoters :: "peerGroupChanges \<Rightarrow> int" where
  "currVoters p = int (length (filter (\<lambda>(mid, m). isVotingMember m) (rangeMap (members p))))"

definition keptVoters :: "peerGroupChanges \<Rightarrow> int" where
  "keptVoters p = currVoters p - int (length (toRemoveVote p))"

text \<open>
  The last loop of \<^verbatim>\<open>reviewPeerGroupChanges\<close> stops at the first index \<open>i\<close> of
  \<^verbatim>\<open>toKeepVoting\<close> whose machine is not the primary, appends that id to \<^verbatim>\<open>toRemoveVote\<close> and
  cuts it out of \<^verbatim>\<open>toKeepVoting\<close>; \<^verbatim>\<open>append(s[:i], s[i+1:]...)\<close> is the slice without its
  \<open>i\<close>-th element.
\<close>

definition demoteFirstNonPrimary :: "peerGroupChanges \<Rightarrow> peerGroupInfo \<Rightarrow> peerGroupChanges" where
  "demoteFirstNonPrimary p info =
     (case find (\<lambda>i. \<not> isPrimaryMember info (toKeepVoting p ! i)) [0..<length (toKeepVoting p)] of
        None \<Rightarrow> p
      | Some i \<Rightarrow>
          p\<lparr>toRemoveVote := toRemoveVote p @ [toKeepVoting p ! i],
            toKeepVoting :=
              (if i = length (toKeepVoting p) - 1 then take i (toKeepVoting p)
               else take i (toKeepVoting p) @ drop (i + 1) (toKeepVoting p))\<rparr>)"

definition reviewPeerGroupChanges :: "peerGroupChanges \<Rightarrow> peerGroupInfo \<Rightarrow> peerGroupChanges" where
  "reviewPeerGroupChanges p info =
     (if (keptVoters p + int (length (toAddVote p))) smod 2 = 1 then p
      else if length (toAddVote p) > 0
        then p\<lparr>toAddVote := take (length (toAddVote p) - 1) (toAddVote p)\<rparr>
      else if keptVoters p = 0
        then p\<lparr>toRemoveVote := filter (\<lambda>mid. \<not> isPrimaryMember info mid) (toRemoveVote p)\<rparr>
      else demoteFirstNonPrimary p info)"

subsection \<open>createNonVotingMember: the member synthesiser\<close>

definition newNonVotingMember :: "string \<Rightarrow> go_int \<Rightarrow> Member" where
  "newNonVotingMember mid maxId =
     setMemberVoting
       \<lparr>Id = maxId, Address = [], Tags = [jujuMachineKey \<mapsto> mid], Votes = None, Priority = None\<rparr>
       False"

text \<open>The body of the first loop: \<^verbatim>\<open>*maxId++\<close>, then the new member under the machine id.
  The state of the loops is the pair of the changes and of \<^verbatim>\<open>*maxId\<close>.\<close>

definition createMember :: "string \<Rightarrow> peerGroupChanges \<times> go_int \<Rightarrow> peerGroupChanges \<times> go_int" where
  "createMember mid = (\<lambda>(p, maxId).
     (let maxId' = maxId + 1
      in (p\<lparr>members := (members p)(mid \<mapsto> newNonVotingMember mid maxId')\<rparr>, maxId')))"

text \<open>The body of the second loop skips a machine that has a member.\<close>

definition createMissingMember :: "string \<Rightarrow> peerGroupChanges \<times> go_int \<Rightarrow> peerGroupChanges \<times> go_int" where
  "createMissingMember mid = (\<lambda>(p, maxId).
     if members p mid \<noteq> None then (p, maxId) else createMember mid (p, maxId))"

definition createNonVotingMember :: "peerGroupChanges \<Rightarrow> go_int \<Rightarrow> peerGroupChanges \<times> go_int" where
  "createNonVotingMember p maxId =
     fold createMissingMember (toKeepNonVoting p)
       (fold createMember (toKeepCreateNonVotingMember p) (p, maxId))"

subsection \<open>getMachinesVoting, adjustVotes, updateAddresses\<close>

text \<open>The body of the loop of \<^verbatim>\<open>getMachinesVoting\<close> over the members map.\<close>

definition recordVoting :: "string \<times> Member \<Rightarrow> peerGroupChanges \<Rightarrow> peerGroupChanges" where
  "recordVoting = (\<lambda>(mid, m) p. p\<lparr>machineVoting := (machineVoting p)(mid \<mapsto> isVotingMember m)\<rparr>)"

definition getMachinesVoting :: "peerGroupChanges \<Rightarrow> peerGroupChanges" where
  "getMachinesVoting p = fold recordVoting (rangeMap (members p)) p"

text \<open>The closure \<^verbatim>\<open>setVoting\<close> of \<^verbatim>\<open>adjustVotes\<close>. \<^verbatim>\<open>setMemberVoting(p.members[id], voting)\<close>
  writes through the pointer it is given: on a machine id with no member the pointer is nil
  and the program panics, which is \<open>None\<close>.\<close>

fun setVoting :: "string list \<Rightarrow> bool \<Rightarrow> peerGroupChanges \<Rightarrow> peerGroupChanges option" where
  "setVoting [] voting p = Some p"
| "setVoting (mid # memberIds) voting p =
     (case members p mid of
        None \<Rightarrow> None
      | Some member \<Rightarrow>
          setVoting memberIds voting
            (p\<lparr>members := (members p)(mid \<mapsto> setMemberVoting member voting),
              machineVoting := (machineVoting p)(mid \<mapsto> voting)\<rparr>))"

definition adjustVotes :: "peerGroupChanges \<Rightarrow> peerGroupChanges option" where
  "adjustVotes p =
     (let p1 = (if length (toAddVote p) > 0 \<or> length (toRemoveVote p) > 0
                   \<or> length (toKeepCreateNonVotingMember p) > 0
                then p\<lparr>isChanged := True\<rparr> else p)
      in case setVoting (toAddVote p1) True p1 of
           None \<Rightarrow> None
         | Some p2 \<Rightarrow>
             (case setVoting (toRemoveVote p2) False p2 of
                None \<Rightarrow> None
              | Some p3 \<Rightarrow> setVoting (toKeepCreateNonVotingMember p3) False p3))"

definition updateAddress :: "string \<times> string \<Rightarrow> peerGroupChanges \<Rightarrow> peerGroupChanges" where
  "updateAddress = (\<lambda>(mid, addr) p.
     if addr = [] then p
     else (case members p mid of
             None \<Rightarrow> p
           | Some m \<Rightarrow>
               if addr \<noteq> Address m
               then p\<lparr>members := (members p)(mid \<mapsto> m\<lparr>Address := addr\<rparr>), isChanged := True\<rparr>
               else p))"

definition updateAddresses :: "peerGroupChanges \<Rightarrow> peerGroupChanges" where
  "updateAddresses p = fold updateAddress (rangeMap (addrs p)) p"

subsection \<open>desiredPeerGroup\<close>

text \<open>The value of \<^verbatim>\<open>peerChanges\<close> at its declaration.\<close>

definition initialChanges :: peerGroupChanges where
  "initialChanges =
     \<lparr>isChanged = False, toRemoveVote = [], toAddVote = [], toKeepVoting = [],
      toKeepNonVoting = [], toKeepCreateNonVotingMember = [],
      machineVoting = Map.empty, addrs = Map.empty, members = Map.empty\<rparr>"

text \<open>
  The stages of \<^verbatim>\<open>desiredPeerGroup\<close> after the two checks, on the changes \<open>p\<close> that
  \<^verbatim>\<open>getMongoAddresses\<close> left: \<open>classified\<close> is \<^verbatim>\<open>peerChanges\<close> after
  \<^verbatim>\<open>possiblePeerGroupChanges\<close>, \<open>reviewed\<close> after \<^verbatim>\<open>reviewPeerGroupChanges\<close>, \<open>synthesised\<close>
  after \<^verbatim>\<open>createNonVotingMember\<close> (with the new \<^verbatim>\<open>info.maxMemberId\<close>), and \<open>beforeAdjust\<close>
  after \<^verbatim>\<open>getMachinesVoting\<close>, which is where \<^verbatim>\<open>adjustVotes\<close> starts.
\<close>

definition classified :: "peerGroupInfo \<Rightarrow> peerGroupChanges \<Rightarrow> peerGroupChanges" where
  "classified info p = possiblePeerGroupChanges (p\<lparr>members := initNewReplicaSet info\<rparr>) info"

definition reviewed :: "peerGroupInfo \<Rightarrow> peerGroupChanges \<Rightarrow> peerGroupChanges" where
  "reviewed info p = reviewPeerGroupChanges (classified info p) info"

definition synthesised :: "peerGroupInfo \<Rightarrow> peerGroupChanges \<Rightarrow> peerGroupChanges \<times> go_int" where
  "synthesised info p = createNonVotingMember (reviewed info p) (maxMemberId info)"

definition beforeAdjust :: "peerGroupInfo \<Rightarrow> peerGroupChanges \<Rightarrow> peerGroupChanges" where
  "beforeAdjust info p = getMachinesVoting (fst (synthesised info p))"

text \<open>
  What \<^verbatim>\<open>desiredPeerGroup\<close> returns: the members map (\<open>None\<close> is the nil map), the voting
  map (\<open>None\<close> is the nil map) and the error (\<open>None\<close> is nil).
\<close>

type_synonym desired = "(string \<rightharpoonup> Member) option \<times> (string \<rightharpoonup> bool) option \<times> error option"

text \<open>
  \<^verbatim>\<open>desiredPeerGroup\<close> takes a pointer to the info and writes \<^verbatim>\<open>info.maxMemberId\<close> through
  it: the model returns the info as the call leaves it beside the three results. The whole
  is \<open>None\<close> when the call panics on a nil member.
\<close>

definition desiredPeerGroup :: "peerGroupInfo \<Rightarrow> (desired \<times> peerGroupInfo) option" where
  "desiredPeerGroup info =
     (case checkExtraMembers initialChanges (extra info) of
        Inl err \<Rightarrow> Some ((None, None, Some err), info)
      | Inr p0 \<Rightarrow>
          (case getMongoAddresses p0 info of
             Inl err \<Rightarrow> Some ((None, None, Some err), info)
           | Inr p1 \<Rightarrow>
               (let info' = info\<lparr>maxMemberId := snd (synthesised info p1)\<rparr>
                in case adjustVotes (beforeAdjust info p1) of
                     None \<Rightarrow> None
                   | Some p2 \<Rightarrow>
                       (let p3 = updateAddresses p2
                        in if \<not> isChanged p3
                           then Some ((None, Some (machineVoting p3), None), info')
                           else Some ((Some (members p3), Some (machineVoting p3), None), info')))))"

section \<open>Properties of the stages\<close>

subsection \<open>Iterating over a map\<close>

lemma rangeMap_keys: "map fst (rangeMap m) = sorted_list_of_set (dom m)"
  by (simp add: rangeMap_def comp_def)

lemma set_rangeMap: "finite (dom m) \<Longrightarrow> set (rangeMap m) = {(k, v). m k = Some v}"
  by (auto simp: rangeMap_def)

lemma distinct_rangeMap_keys: "distinct (map fst (rangeMap m))"
  by (simp add: rangeMap_keys)

lemma sorted_rangeMap_keys: "sorted (map fst (rangeMap m))"
  by (simp add: rangeMap_keys)

lemma rangeMap_lookup: "(k, v) \<in> set (rangeMap m) \<Longrightarrow> m k = Some v"
  by (cases "finite (dom m)") (auto simp: rangeMap_def)

subsection \<open>The snapshot that newPeerGroupInfo assembles\<close>

text \<open>A member is associated when the loop sets \<^verbatim>\<open>found\<close> for it: it carries the machine-id
  tag and the tag names a known machine.\<close>

definition associated :: "(string \<rightharpoonup> machineTracker) \<Rightarrow> Member \<Rightarrow> bool" where
  "associated ms m = (case Tags m jujuMachineKey of None \<Rightarrow> False | Some mid \<Rightarrow> ms mid \<noteq> None)"

text \<open>A member is matched when some status of the list has its member id.\<close>

definition matched :: "MemberStatus list \<Rightarrow> Member \<Rightarrow> bool" where
  "matched stss m = (\<exists>sts\<in>set stss. StatusId sts = Id m)"

lemma dom_linkStatuses:
  "dom (linkStatuses mid m stss st) = dom st \<union> (if matched stss m then {mid} else {})"
  unfolding linkStatuses_def matched_def
  by (induction stss arbitrary: st) auto

lemma addMember_machines [simp]: "machines (addMember ms stss m info) = machines info"
  by (simp add: addMember_def Let_def split: option.splits)

lemma addMember_extra:
  "extra (addMember ms stss m info) = extra info @ (if associated ms m then [] else [m])"
  by (simp add: addMember_def associated_def Let_def split: option.splits)

lemma addMember_recognised:
  "recognised (addMember ms stss m info) =
     (case Tags m jujuMachineKey of
        None \<Rightarrow> recognised info
      | Some mid \<Rightarrow> if ms mid \<noteq> None then (recognised info)(mid \<mapsto> m) else recognised info)"
  by (simp add: addMember_def Let_def split: option.splits)

lemma addMember_statuses:
  "statuses (addMember ms stss m info) =
     (case Tags m jujuMachineKey of
        None \<Rightarrow> statuses info
      | Some mid \<Rightarrow> linkStatuses mid m stss (statuses info))"
  by (simp add: addMember_def Let_def split: option.splits)

lemma addMember_maxMemberId:
  "maxMemberId (addMember ms stss m info) =
     (if maxMemberId info <s Id m then Id m else maxMemberId info)"
  by (simp add: addMember_def Let_def split: option.splits)

lemma fold_addMember_machines [simp]:
  "machines (fold (addMember ms stss) mems info) = machines info"
  by (induction mems arbitrary: info) auto

lemma fold_addMember_extra:
  "extra (fold (addMember ms stss) mems info) = extra info @ filter (\<lambda>m. \<not> associated ms m) mems"
  by (induction mems arbitrary: info) (auto simp: addMember_extra)

text \<open>The recognised member of a known machine is the last member of the list that carries
  its id as tag: a later member overwrites an earlier one.\<close>

lemma fold_addMember_recognised:
  "recognised (fold (addMember ms stss) mems info) mid =
     (if ms mid = None then recognised info mid
      else case find (\<lambda>m. Tags m jujuMachineKey = Some mid) (rev mems) of
             None \<Rightarrow> recognised info mid
           | Some m \<Rightarrow> Some m)"
proof (induction mems rule: rev_induct)
  case Nil
  show ?case by simp
next
  case (snoc m mems)
  show ?case
    using snoc.IH
    by (auto simp: addMember_recognised split: option.splits)
qed

lemma fold_addMember_statuses_dom:
  "dom (statuses (fold (addMember ms stss) mems info)) =
     dom (statuses info) \<union>
     {mid. \<exists>m\<in>set mems. Tags m jujuMachineKey = Some mid \<and> matched stss m}"
proof (induction mems rule: rev_induct)
  case Nil
  show ?case by simp
next
  case (snoc m mems)
  show ?case
    using snoc.IH
    by (auto simp: addMember_statuses dom_linkStatuses split: option.splits if_splits)
qed

lemma fold_addMember_maxMemberId:
  "maxMemberId info \<le>s maxMemberId (fold (addMember ms stss) mems info) \<and>
   (\<forall>m\<in>set mems. Id m \<le>s maxMemberId (fold (addMember ms stss) mems info))"
proof (induction mems rule: rev_induct)
  case Nil
  show ?case by simp
next
  case (snoc m mems)
  show ?case
    using snoc.IH
    by (auto simp: addMember_maxMemberId word_sle_eq word_sless_alt)
qed

lemma find_rev_last:
  "find P (rev xs) = (if filter P xs = [] then None else Some (last (filter P xs)))"
  by (induction xs rule: rev_induct) auto

lemma find_Some_set: "find P xs = Some x \<Longrightarrow> x \<in> set xs \<and> P x"
  by (induction xs) (auto split: if_splits)

lemma find_rev_Some_set: "find P (rev xs) = Some x \<Longrightarrow> x \<in> set xs \<and> P x"
  using find_Some_set [of P "rev xs" x] by simp

text \<open>The snapshot of a successful call: its maps and list in terms of the input.\<close>

lemma newPeerGroupInfo_Inr:
  assumes "newPeerGroupInfo ms stss mems port space = Inr info"
  shows "mems \<noteq> []"
    and "machines info = ms"
    and "extra info = filter (\<lambda>m. \<not> associated ms m) mems"
    and "recognised info mid =
           (if ms mid = None then None
            else find (\<lambda>m. Tags m jujuMachineKey = Some mid) (rev mems))"
    and "dom (statuses info) = {mid. \<exists>m\<in>set mems. Tags m jujuMachineKey = Some mid \<and> matched stss m}"
    and "- 1 \<le>s maxMemberId info"
    and "\<forall>m\<in>set mems. Id m \<le>s maxMemberId info"
proof -
  let ?init = "\<lparr>machines = ms, recognised = Map.empty, statuses = Map.empty, extra = [],
                 maxMemberId = - 1, mongoPort = port, haSpace = space\<rparr>"
  from assms have ne: "mems \<noteq> []" and info: "info = fold (addMember ms stss) mems ?init"
    by (auto simp: newPeerGroupInfo_def split: if_splits)
  show "mems \<noteq> []" by (rule ne)
  show "machines info = ms" by (simp add: info)
  show "extra info = filter (\<lambda>m. \<not> associated ms m) mems"
    by (simp add: info fold_addMember_extra)
  show "recognised info mid =
           (if ms mid = None then None
            else find (\<lambda>m. Tags m jujuMachineKey = Some mid) (rev mems))"
    by (simp add: info fold_addMember_recognised split: option.splits)
  show "dom (statuses info) = {mid. \<exists>m\<in>set mems. Tags m jujuMachineKey = Some mid \<and> matched stss m}"
    by (simp add: info fold_addMember_statuses_dom)
  from fold_addMember_maxMemberId [of ?init ms stss mems]
  show "- 1 \<le>s maxMemberId info" and "\<forall>m\<in>set mems. Id m \<le>s maxMemberId info"
    by (simp_all add: info)
qed

subsection \<open>The classifier\<close>

text \<open>The five slices of \<^verbatim>\<open>peerGroupChanges\<close> that the classifier fills, and the slice
  of each name.\<close>

datatype bucket =
    ToKeepVoting
  | ToAddVote
  | ToKeepNonVoting
  | ToKeepCreateNonVotingMember
  | ToRemoveVote

fun bucketIds :: "peerGroupChanges \<Rightarrow> bucket \<Rightarrow> string list" where
  "bucketIds p ToKeepVoting = toKeepVoting p"
| "bucketIds p ToAddVote = toAddVote p"
| "bucketIds p ToKeepNonVoting = toKeepNonVoting p"
| "bucketIds p ToKeepCreateNonVotingMember = toKeepCreateNonVotingMember p"
| "bucketIds p ToRemoveVote = toRemoveVote p"

text \<open>
  The table of the spec (section 4.3), row by row: the bucket of a machine from
  \<open>wantsVote\<close>, \<open>isVoting\<close>, \<open>ready\<close> and whether a member exists for it. \<open>votingIn\<close> and
  \<open>readyIn\<close> are the spec's \<open>isVoting\<close> (a member exists for the machine id whose votes are
  null or greater than 0) and \<open>ready\<close> (a status exists for the machine id that is healthy,
  with state Primary or Secondary).
\<close>

fun tableBucket :: "bool \<Rightarrow> bool \<Rightarrow> bool \<Rightarrow> bool \<Rightarrow> bucket" where
  "tableBucket True True ready memberExists = ToKeepVoting"
| "tableBucket True False True memberExists = ToAddVote"
| "tableBucket True False False True = ToKeepNonVoting"
| "tableBucket True False False False = ToKeepCreateNonVotingMember"
| "tableBucket False True ready memberExists = ToRemoveVote"
| "tableBucket False False ready memberExists = ToKeepNonVoting"

definition votingIn :: "(string \<rightharpoonup> Member) \<Rightarrow> string \<Rightarrow> bool" where
  "votingIn mems mid =
     (\<exists>member. mems mid = Some member \<and> (Votes member = None \<or> (\<exists>v. Votes member = Some v \<and> v > 0)))"

definition readyIn :: "peerGroupInfo \<Rightarrow> string \<Rightarrow> bool" where
  "readyIn info mid =
     (\<exists>status. statuses info mid = Some status \<and> Healthy status \<and>
                (State status = PrimaryState \<or> State status = SecondaryState))"

text \<open>The bucket of the table for an entry of the machines map, given the members map.\<close>

definition bucketFor :: "peerGroupInfo \<Rightarrow> (string \<rightharpoonup> Member) \<Rightarrow> string \<times> machineTracker \<Rightarrow> bucket" where
  "bucketFor info mems = (\<lambda>(mid, m).
     tableBucket (WantsVote m) (votingIn mems mid) (readyIn info mid) (mems mid \<noteq> None))"

lemma classify_members [simp]: "members (classify info e p) = members p"
  by (cases e) (simp add: classify_def Let_def)

lemma classify_isChanged [simp]: "isChanged (classify info e p) = isChanged p"
  by (cases e) (simp add: classify_def Let_def)

lemma classify_machineVoting [simp]: "machineVoting (classify info e p) = machineVoting p"
  by (cases e) (simp add: classify_def Let_def)

lemma classify_addrs [simp]: "addrs (classify info e p) = addrs p"
  by (cases e) (simp add: classify_def Let_def)

lemma votingIn_code:
  "votingIn mems mid = (case mems mid of None \<Rightarrow> False | Some mem \<Rightarrow> isVotingMember mem)"
  by (auto simp: votingIn_def isVotingMember_def split: option.splits)

lemma readyIn_code:
  "readyIn info mid = (case statuses info mid of None \<Rightarrow> False | Some status \<Rightarrow> isReady status)"
  by (auto simp: readyIn_def isReady_def split: option.splits)

text \<open>One iteration of the classifier appends the machine id to the bucket of the table and
  to no other.\<close>

lemma classify_bucketIds:
  "bucketIds (classify info e p) b =
     bucketIds p b @ (if bucketFor info (members p) e = b then [fst e] else [])"
proof (cases e)
  case (Pair mid m)
  show ?thesis
    unfolding Pair bucketFor_def votingIn_code readyIn_code
    by (cases b; cases "WantsVote m"; cases "members p mid"; cases "statuses info mid")
       (auto simp: classify_def Let_def)
qed

lemma fold_classify_members [simp]: "members (fold (classify info) es p) = members p"
  by (induction es arbitrary: p) auto

lemma fold_classify_isChanged [simp]: "isChanged (fold (classify info) es p) = isChanged p"
  by (induction es arbitrary: p) auto

lemma fold_classify_machineVoting [simp]: "machineVoting (fold (classify info) es p) = machineVoting p"
  by (induction es arbitrary: p) auto

lemma fold_classify_addrs [simp]: "addrs (fold (classify info) es p) = addrs p"
  by (induction es arbitrary: p) auto

lemma fold_classify_bucketIds:
  "bucketIds (fold (classify info) es p) b =
     bucketIds p b @ map fst (filter (\<lambda>e. bucketFor info (members p) e = b) es)"
  by (induction es arbitrary: p) (auto simp: classify_bucketIds)

lemma classified_members [simp]: "members (classified info p) = recognised info"
  by (simp add: classified_def possiblePeerGroupChanges_def initNewReplicaSet_def)

lemma classified_bucketIds:
  "bucketIds (classified info p) b =
     bucketIds p b @ map fst (filter (\<lambda>e. bucketFor info (recognised info) e = b) (rangeMap (machines info)))"
  unfolding classified_def possiblePeerGroupChanges_def fold_classify_bucketIds initNewReplicaSet_def
  by (cases b) simp_all

lemma distinct_map_fst_filter: "distinct (map fst es) \<Longrightarrow> distinct (map fst (filter P es))"
  by (induction es) auto

lemma sorted_map_fst_filter: "sorted (map fst es) \<Longrightarrow> sorted (map fst (filter P es))"
  by (induction es) auto

lemma initialChanges_buckets: "bucketIds initialChanges b = []"
  by (cases b) (simp_all add: initialChanges_def)

subsection \<open>The quorum adjuster\<close>

lemma even_smod_2: "even k \<Longrightarrow> (k::int) smod 2 \<noteq> 1"
  by (auto simp: signed_modulo_int_def)


lemma reviewPeerGroupChanges_trims:
  assumes "even (keptVoters p + int (length (toAddVote p)))" and "toAddVote p \<noteq> []"
  shows "reviewPeerGroupChanges p info = p\<lparr>toAddVote := butlast (toAddVote p)\<rparr>"
  using assms by (simp add: reviewPeerGroupChanges_def even_smod_2 butlast_conv_take)

lemma classified_sorted: 
  assumes "bucketIds p b = []"
  shows "sorted (bucketIds (classified info p) b)"
  using assms by (simp add: classified_bucketIds sorted_map_fst_filter sorted_rangeMap_keys)

lemma demoteFirstNonPrimary_cases:
  "(demoteFirstNonPrimary p info = p \<and> (\<forall>mid\<in>set (toKeepVoting p). isPrimaryMember info mid)) \<or>
   (\<exists>i<length (toKeepVoting p).
      \<not> isPrimaryMember info (toKeepVoting p ! i) \<and>
      demoteFirstNonPrimary p info =
        p\<lparr>toRemoveVote := toRemoveVote p @ [toKeepVoting p ! i],
          toKeepVoting := take i (toKeepVoting p) @ drop (Suc i) (toKeepVoting p)\<rparr>)"
proof (cases "find (\<lambda>i. \<not> isPrimaryMember info (toKeepVoting p ! i)) [0..<length (toKeepVoting p)]")
  case None
  then have "\<forall>i<length (toKeepVoting p). isPrimaryMember info (toKeepVoting p ! i)"
    by (simp add: find_None_iff)
  then have "\<forall>mid\<in>set (toKeepVoting p). isPrimaryMember info mid"
    by (simp add: all_set_conv_all_nth)
  with None show ?thesis by (simp add: demoteFirstNonPrimary_def)
next
  case (Some i)
  then have i: "i < length (toKeepVoting p)" and np: "\<not> isPrimaryMember info (toKeepVoting p ! i)"
    by (auto simp: find_Some_iff)
  have "(if i = length (toKeepVoting p) - 1 then take i (toKeepVoting p)
         else take i (toKeepVoting p) @ drop (i + 1) (toKeepVoting p)) =
        take i (toKeepVoting p) @ drop (Suc i) (toKeepVoting p)"
    using i by auto
  with Some have "demoteFirstNonPrimary p info =
        p\<lparr>toRemoveVote := toRemoveVote p @ [toKeepVoting p ! i],
          toKeepVoting := take i (toKeepVoting p) @ drop (Suc i) (toKeepVoting p)\<rparr>"
    by (simp add: demoteFirstNonPrimary_def)
  with i np show ?thesis by blast
qed

lemma demoteFirstNonPrimary_toRemoveVote:
  "set (toRemoveVote (demoteFirstNonPrimary p info)) \<subseteq>
     set (toRemoveVote p) \<union> {mid \<in> set (toKeepVoting p). \<not> isPrimaryMember info mid}"
  using demoteFirstNonPrimary_cases [of p info] by auto

lemma reviewPeerGroupChanges_toRemoveVote:
  "set (toRemoveVote (reviewPeerGroupChanges p info)) \<subseteq>
     set (toRemoveVote p) \<union> {mid \<in> set (toKeepVoting p). \<not> isPrimaryMember info mid}"
  using demoteFirstNonPrimary_toRemoveVote [of p info]
  by (auto simp: reviewPeerGroupChanges_def)

lemma reviewPeerGroupChanges_keeps_primary:
  assumes "keptVoters p = 0" and "toAddVote p = []"
  shows "toRemoveVote (reviewPeerGroupChanges p info) =
           filter (\<lambda>mid. \<not> isPrimaryMember info mid) (toRemoveVote p)"
  using assms by (simp add: reviewPeerGroupChanges_def)

lemma classified_bucket_mem:
  assumes "bucketIds p b = []"
  shows "mid \<in> set (bucketIds (classified info p) b) \<longleftrightarrow>
           (\<exists>m. (mid, m) \<in> set (rangeMap (machines info)) \<and> bucketFor info (recognised info) (mid, m) = b)"
  unfolding classified_bucketIds assms by force

lemma tableBucket_ToRemoveVote:
  "tableBucket w v r e = ToRemoveVote \<longleftrightarrow> \<not> w \<and> v"
  by (cases w; cases v; cases r; cases e) simp_all

lemma tableBucket_ToKeepVoting:
  "tableBucket w v r e = ToKeepVoting \<longleftrightarrow> w \<and> v"
  by (cases w; cases v; cases r; cases e) simp_all

lemma tableBucket_ToAddVote:
  "tableBucket w v r e = ToAddVote \<longleftrightarrow> w \<and> \<not> v \<and> r"
  by (cases w; cases v; cases r; cases e) simp_all

lemma tableBucket_ToKeepCreate:
  "tableBucket w v r e = ToKeepCreateNonVotingMember \<longleftrightarrow> w \<and> \<not> v \<and> \<not> r \<and> \<not> e"
  by (cases w; cases v; cases r; cases e) simp_all

subsection \<open>The member synthesiser\<close>

lemma votingIn_newNonVotingMember [simp]: "\<not> isVotingMember (newNonVotingMember mid i)"
  by (simp add: newNonVotingMember_def setMemberVoting_def isVotingMember_def)

lemma Id_newNonVotingMember [simp]: "Id (newNonVotingMember mid i) = i"
  by (simp add: newNonVotingMember_def setMemberVoting_def)

text \<open>The fields that no loop of \<^verbatim>\<open>createNonVotingMember\<close> writes.\<close>

definition sameBuckets :: "peerGroupChanges \<Rightarrow> peerGroupChanges \<Rightarrow> bool" where
  "sameBuckets p' p \<longleftrightarrow>
     (\<forall>b. bucketIds p' b = bucketIds p b) \<and> isChanged p' = isChanged p \<and>
     machineVoting p' = machineVoting p \<and> addrs p' = addrs p"

lemma sameBuckets_refl [simp]: "sameBuckets p p"
  by (simp add: sameBuckets_def)

lemma sameBuckets_trans: "sameBuckets p'' p' \<Longrightarrow> sameBuckets p' p \<Longrightarrow> sameBuckets p'' p"
  by (simp add: sameBuckets_def)

lemma sameBuckets_members [simp]: "sameBuckets (p\<lparr>members := ms\<rparr>) p"
proof -
  have "bucketIds (p\<lparr>members := ms\<rparr>) b = bucketIds p b" for b
    by (cases b) simp_all
  then show ?thesis by (simp add: sameBuckets_def)
qed

lemma sameBuckets_fields:
  assumes "sameBuckets p' p"
  shows "toKeepVoting p' = toKeepVoting p" and "toAddVote p' = toAddVote p"
    and "toKeepNonVoting p' = toKeepNonVoting p"
    and "toKeepCreateNonVotingMember p' = toKeepCreateNonVotingMember p"
    and "toRemoveVote p' = toRemoveVote p" and "isChanged p' = isChanged p"
    and "machineVoting p' = machineVoting p" and "addrs p' = addrs p"
proof -
  from assms have b: "bucketIds p' b = bucketIds p b" for b
    by (simp add: sameBuckets_def)
  from b [of ToKeepVoting] show "toKeepVoting p' = toKeepVoting p" by simp
  from b [of ToAddVote] show "toAddVote p' = toAddVote p" by simp
  from b [of ToKeepNonVoting] show "toKeepNonVoting p' = toKeepNonVoting p" by simp
  from b [of ToKeepCreateNonVotingMember]
  show "toKeepCreateNonVotingMember p' = toKeepCreateNonVotingMember p" by simp
  from b [of ToRemoveVote] show "toRemoveVote p' = toRemoveVote p" by simp
  from assms show "isChanged p' = isChanged p" "machineVoting p' = machineVoting p" "addrs p' = addrs p"
    by (simp_all add: sameBuckets_def)
qed

text \<open>The first loop over a list of machine ids: what it leaves in the members map and in
  the counter.\<close>

lemma fold_createMember:
  "sameBuckets (fst (fold createMember ids (p, maxId))) p \<and>
   snd (fold createMember ids (p, maxId)) = maxId + of_nat (length ids) \<and>
   (\<forall>mid. mid \<notin> set ids \<longrightarrow> members (fst (fold createMember ids (p, maxId))) mid = members p mid) \<and>
   (\<forall>mid\<in>set ids. \<exists>i<length ids. ids ! i = mid \<and>
        members (fst (fold createMember ids (p, maxId))) mid =
          Some (newNonVotingMember mid (maxId + 1 + of_nat i))) \<and>
   (distinct ids \<longrightarrow> (\<forall>i<length ids.
        members (fst (fold createMember ids (p, maxId))) (ids ! i) =
          Some (newNonVotingMember (ids ! i) (maxId + 1 + of_nat i))))"
proof (induction ids arbitrary: p maxId rule: rev_induct)
  case Nil
  show ?case by simp
next
  case (snoc x ids)
  let ?q = "fold createMember ids (p, maxId)"
  have step: "fold createMember (ids @ [x]) (p, maxId) =
      ((fst ?q)\<lparr>members := (members (fst ?q))(x \<mapsto> newNonVotingMember x (snd ?q + 1))\<rparr>, snd ?q + 1)"
    by (simp add: createMember_def Let_def split_beta)
  note IH = snoc.IH [of p maxId]
  have 1: "sameBuckets (fst (fold createMember (ids @ [x]) (p, maxId))) p"
    unfolding step using IH sameBuckets_trans [OF sameBuckets_members] by simp
  have 2: "snd (fold createMember (ids @ [x]) (p, maxId)) = maxId + of_nat (length (ids @ [x]))"
    unfolding step using IH by simp
  have 3: "\<forall>mid. mid \<notin> set (ids @ [x]) \<longrightarrow>
      members (fst (fold createMember (ids @ [x]) (p, maxId))) mid = members p mid"
    unfolding step using IH by simp
  have 4: "\<exists>i<length (ids @ [x]). (ids @ [x]) ! i = mid \<and>
        members (fst (fold createMember (ids @ [x]) (p, maxId))) mid =
          Some (newNonVotingMember mid (maxId + 1 + of_nat i))" if "mid \<in> set (ids @ [x])" for mid
  proof (cases "mid = x")
    case True
    have "(ids @ [x]) ! length ids = mid \<and>
        members (fst (fold createMember (ids @ [x]) (p, maxId))) mid =
          Some (newNonVotingMember mid (maxId + 1 + of_nat (length ids)))"
      unfolding step using IH True by (simp add: ac_simps)
    then show ?thesis by (intro exI [of _ "length ids"]) auto
  next
    case False
    with that have "mid \<in> set ids" by simp
    with IH obtain i where i: "i < length ids" "ids ! i = mid"
      "members (fst ?q) mid = Some (newNonVotingMember mid (maxId + 1 + of_nat i))"
      by blast
    then have "(ids @ [x]) ! i = mid \<and>
        members (fst (fold createMember (ids @ [x]) (p, maxId))) mid =
          Some (newNonVotingMember mid (maxId + 1 + of_nat i))"
      unfolding step using False by (simp add: nth_append)
    with i(1) show ?thesis by (intro exI [of _ i]) auto
  qed
  have 5: "members (fst (fold createMember (ids @ [x]) (p, maxId))) ((ids @ [x]) ! i) =
          Some (newNonVotingMember ((ids @ [x]) ! i) (maxId + 1 + of_nat i))"
    if d: "distinct (ids @ [x])" and i: "i < length (ids @ [x])" for i
  proof (cases "i < length ids")
    case True
    with d have "ids ! i \<noteq> x" by auto
    with True IH d show ?thesis
      unfolding step by (simp add: nth_append)
  next
    case False
    with i have "i = length ids" by simp
    then show ?thesis
      unfolding step using IH by (simp add: ac_simps)
  qed
  from 1 2 3 4 5 show ?case by blast
qed


text \<open>The second loop creates a member exactly for the machine ids that have none, once
  each.\<close>

lemma fold_createMissingMember:
  "distinct ids \<Longrightarrow>
   fold createMissingMember ids (p, maxId) =
     fold createMember (filter (\<lambda>mid. members p mid = None) ids) (p, maxId)"
proof (induction ids arbitrary: p maxId)
  case Nil
  show ?case by simp
next
  case (Cons x xs)
  show ?case
  proof (cases "members p x = None")
    case False
    then have "createMissingMember x (p, maxId) = (p, maxId)"
      by (simp add: createMissingMember_def)
    moreover from Cons.prems have "distinct xs" by simp
    ultimately show ?thesis
      using False by (auto simp: Cons.IH)
  next
    case True
    let ?p' = "p\<lparr>members := (members p)(x \<mapsto> newNonVotingMember x (maxId + 1))\<rparr>"
    from Cons.prems have "x \<notin> set xs" and d: "distinct xs" by simp_all
    then have f: "filter (\<lambda>mid. members ?p' mid = None) xs = filter (\<lambda>mid. members p mid = None) xs"
      by (intro filter_cong) auto
    have "fold createMissingMember (x # xs) (p, maxId) = fold createMissingMember xs (?p', maxId + 1)"
      using True by (simp add: createMissingMember_def createMember_def Let_def)
    also have "\<dots> = fold createMember (filter (\<lambda>mid. members ?p' mid = None) xs) (?p', maxId + 1)"
      by (rule Cons.IH [OF d])
    also have "\<dots> = fold createMember (filter (\<lambda>mid. members p mid = None) (x # xs)) (p, maxId)"
      unfolding f using True by (simp add: createMember_def Let_def)
    finally show ?thesis .
  qed
qed

text \<open>The machine ids for which \<^verbatim>\<open>createNonVotingMember\<close> creates a member, in the order in
  which it creates them: those of \<^verbatim>\<open>toKeepCreateNonVotingMember\<close>, then those of
  \<^verbatim>\<open>toKeepNonVoting\<close> that have no member.\<close>

definition createdIds :: "peerGroupChanges \<Rightarrow> string list" where
  "createdIds p =
     toKeepCreateNonVotingMember p @
     filter (\<lambda>mid. mid \<notin> set (toKeepCreateNonVotingMember p) \<and> members p mid = None)
       (toKeepNonVoting p)"

lemma createNonVotingMember_fold:
  assumes "distinct (toKeepNonVoting p)"
  shows "createNonVotingMember p maxId = fold createMember (createdIds p) (p, maxId)"
proof -
  let ?C = "toKeepCreateNonVotingMember p"
  obtain p1 m1 where q: "fold createMember ?C (p, maxId) = (p1, m1)"
    by (cases "fold createMember ?C (p, maxId)")
  from fold_createMember [of ?C p maxId] q
  have same: "sameBuckets p1 p"
    and other: "\<forall>mid. mid \<notin> set ?C \<longrightarrow> members p1 mid = members p mid"
    and new: "\<forall>mid\<in>set ?C. members p1 mid \<noteq> None"
    by auto
  have "(members p1 mid = None) = (mid \<notin> set ?C \<and> members p mid = None)" for mid
    using other new by (cases "mid \<in> set ?C") auto
  then have "filter (\<lambda>mid. members p1 mid = None) (toKeepNonVoting p) =
        filter (\<lambda>mid. mid \<notin> set ?C \<and> members p mid = None) (toKeepNonVoting p)"
    by simp
  then show ?thesis
    using assms q
    by (simp add: createNonVotingMember_def createdIds_def fold_createMissingMember)
qed

lemma distinct_createdIds:
  "distinct (toKeepCreateNonVotingMember p) \<Longrightarrow> distinct (toKeepNonVoting p) \<Longrightarrow>
   distinct (createdIds p)"
  by (auto simp: createdIds_def)

lemma createNonVotingMember_result:
  assumes "distinct (toKeepCreateNonVotingMember p)" and "distinct (toKeepNonVoting p)"
  shows "sameBuckets (fst (createNonVotingMember p maxId)) p"
    and "snd (createNonVotingMember p maxId) = maxId + of_nat (length (createdIds p))"
    and "mid \<notin> set (createdIds p) \<Longrightarrow> members (fst (createNonVotingMember p maxId)) mid = members p mid"
    and "i < length (createdIds p) \<Longrightarrow>
           members (fst (createNonVotingMember p maxId)) (createdIds p ! i) =
             Some (newNonVotingMember (createdIds p ! i) (maxId + 1 + of_nat i))"
  using fold_createMember [of "createdIds p" p maxId] distinct_createdIds [OF assms]
  by (simp_all add: createNonVotingMember_fold [OF assms(2)])

subsection \<open>What the adjuster leaves untouched\<close>

lemma demoteFirstNonPrimary_same:
  "members (demoteFirstNonPrimary p info) = members p \<and>
   toKeepNonVoting (demoteFirstNonPrimary p info) = toKeepNonVoting p \<and>
   toKeepCreateNonVotingMember (demoteFirstNonPrimary p info) = toKeepCreateNonVotingMember p \<and>
   toAddVote (demoteFirstNonPrimary p info) = toAddVote p \<and>
   isChanged (demoteFirstNonPrimary p info) = isChanged p \<and>
   machineVoting (demoteFirstNonPrimary p info) = machineVoting p \<and>
   addrs (demoteFirstNonPrimary p info) = addrs p"
  by (simp add: demoteFirstNonPrimary_def split: option.splits)

lemma reviewPeerGroupChanges_same:
  "members (reviewPeerGroupChanges p info) = members p \<and>
   toKeepNonVoting (reviewPeerGroupChanges p info) = toKeepNonVoting p \<and>
   toKeepCreateNonVotingMember (reviewPeerGroupChanges p info) = toKeepCreateNonVotingMember p \<and>
   isChanged (reviewPeerGroupChanges p info) = isChanged p \<and>
   machineVoting (reviewPeerGroupChanges p info) = machineVoting p \<and>
   addrs (reviewPeerGroupChanges p info) = addrs p"
  by (simp add: reviewPeerGroupChanges_def demoteFirstNonPrimary_same)

lemma classified_distinct:
  assumes "bucketIds p b = []"
  shows "distinct (bucketIds (classified info p) b)"
  using assms by (simp add: classified_bucketIds distinct_map_fst_filter distinct_rangeMap_keys)

lemma reviewed_members [simp]: "members (reviewed info p) = recognised info"
  by (simp add: reviewed_def reviewPeerGroupChanges_same)

lemma reviewed_distinct:
  assumes "\<forall>b. bucketIds p b = []"
  shows "distinct (toKeepCreateNonVotingMember (reviewed info p))"
    and "distinct (toKeepNonVoting (reviewed info p))"
proof -
  from assms have "bucketIds p ToKeepCreateNonVotingMember = []" by blast
  from classified_distinct [OF this, of info]
  show "distinct (toKeepCreateNonVotingMember (reviewed info p))"
    by (simp add: reviewed_def reviewPeerGroupChanges_same)
  from assms have "bucketIds p ToKeepNonVoting = []" by blast
  from classified_distinct [OF this, of info]
  show "distinct (toKeepNonVoting (reviewed info p))"
    by (simp add: reviewed_def reviewPeerGroupChanges_same)
qed

subsection \<open>Member ids without overflow\<close>

lemma sint_add_of_nat:
  fixes x :: go_int
  assumes "sint x + int k < 2 ^ 63"
  shows "sint (x + of_nat k) = sint x + int k"
proof -
  have "x + of_nat k = word_of_int (sint x + int k)"
    by simp
  moreover have "- (2 ^ 63) \<le> sint x + int k"
    using sint_ge [of x] by simp
  ultimately show ?thesis
    using assms by (simp only: sint_sbintrunc') (simp add: signed_take_bit_int_eq_self)
qed

subsection \<open>getMachinesVoting, adjustVotes and updateAddresses\<close>


lemma recordVoting_same:
  "members (recordVoting e p) = members p \<and> (\<forall>b. bucketIds (recordVoting e p) b = bucketIds p b) \<and>
   isChanged (recordVoting e p) = isChanged p \<and> addrs (recordVoting e p) = addrs p"
proof -
  obtain mid m where e: "e = (mid, m)" by (cases e)
  have "bucketIds (p\<lparr>machineVoting := mv\<rparr>) b = bucketIds p b" for mv b
    by (cases b) simp_all
  then show ?thesis by (simp add: e recordVoting_def)
qed

lemma fold_recordVoting_same:
  "members (fold recordVoting es p) = members p \<and>
   (\<forall>b. bucketIds (fold recordVoting es p) b = bucketIds p b) \<and>
   isChanged (fold recordVoting es p) = isChanged p \<and> addrs (fold recordVoting es p) = addrs p"
  by (induction es arbitrary: p) (simp_all add: recordVoting_same)


lemma getMachinesVoting_same:
  "members (getMachinesVoting p) = members p \<and> (\<forall>b. bucketIds (getMachinesVoting p) b = bucketIds p b) \<and>
   isChanged (getMachinesVoting p) = isChanged p \<and> addrs (getMachinesVoting p) = addrs p"
  unfolding getMachinesVoting_def by (rule fold_recordVoting_same)


text \<open>\<^verbatim>\<open>setVoting\<close> does not panic when every machine id of the list has a member.\<close>

lemma setVoting_Some:
  assumes "\<forall>mid\<in>set ids. members p mid \<noteq> None"
  shows "\<exists>p'. setVoting ids v p = Some p' \<and> dom (members p') = dom (members p) \<and>
              machineVoting p' = (\<lambda>mid. if mid \<in> set ids then Some v else machineVoting p mid) \<and>
              (\<forall>b. bucketIds p' b = bucketIds p b) \<and> isChanged p' = isChanged p \<and>
              addrs p' = addrs p"
  using assms
proof (induction ids arbitrary: p)
  case Nil
  show ?case by simp
next
  case (Cons x xs)
  from Cons.prems obtain member where m: "members p x = Some member" by auto
  let ?p = "p\<lparr>members := (members p)(x \<mapsto> setMemberVoting member v),
              machineVoting := (machineVoting p)(x \<mapsto> v)\<rparr>"
  have b: "bucketIds ?p b = bucketIds p b" for b
    by (cases b) simp_all
  from Cons.prems have "\<forall>mid\<in>set xs. members ?p mid \<noteq> None" by simp
  from Cons.IH [OF this] obtain p' where p':
    "setVoting xs v ?p = Some p'" "dom (members p') = dom (members ?p)"
    "machineVoting p' = (\<lambda>mid. if mid \<in> set xs then Some v else machineVoting ?p mid)"
    "\<forall>b. bucketIds p' b = bucketIds ?p b" "isChanged p' = isChanged ?p" "addrs p' = addrs ?p"
    by blast
  have "setVoting (x # xs) v p = Some p'"
    using m p'(1) by simp
  moreover have "dom (members p') = dom (members p)"
    using p'(2) m by auto
  moreover have "machineVoting p' = (\<lambda>mid. if mid \<in> set (x # xs) then Some v else machineVoting p mid)"
    using p'(3) by (auto simp: fun_eq_iff)
  ultimately show ?case using p'(4,5,6) b by simp
qed

lemma setVoting_None:
  "setVoting ids v p = None \<Longrightarrow> \<exists>mid\<in>set ids. members p mid = None"
proof (rule ccontr)
  assume n: "setVoting ids v p = None" and a: "\<not> (\<exists>mid\<in>set ids. members p mid = None)"
  from a have "\<forall>mid\<in>set ids. members p mid \<noteq> None" by simp
  from setVoting_Some [OF this, of v] n show False by auto
qed

lemma adjustVotes_Some:
  assumes "\<forall>mid\<in>set (toAddVote p) \<union> set (toRemoveVote p) \<union> set (toKeepCreateNonVotingMember p).
             members p mid \<noteq> None"
  shows "\<exists>p'. adjustVotes p = Some p' \<and>
              machineVoting p' =
                (\<lambda>mid. if mid \<in> set (toKeepCreateNonVotingMember p) then Some False
                       else if mid \<in> set (toRemoveVote p) then Some False
                       else if mid \<in> set (toAddVote p) then Some True
                       else machineVoting p mid) \<and>
              dom (members p') = dom (members p) \<and>
              (\<forall>b. bucketIds p' b = bucketIds p b) \<and> addrs p' = addrs p \<and>
              isChanged p' = (isChanged p \<or> toAddVote p \<noteq> [] \<or> toRemoveVote p \<noteq> [] \<or>
                              toKeepCreateNonVotingMember p \<noteq> [])"
proof -
  let ?p1 = "if length (toAddVote p) > 0 \<or> length (toRemoveVote p) > 0
                   \<or> length (toKeepCreateNonVotingMember p) > 0
             then p\<lparr>isChanged := True\<rparr> else p"
  have b1: "bucketIds ?p1 b = bucketIds p b" for b
    by (cases b) simp_all
  have f1: "toAddVote ?p1 = toAddVote p" "toRemoveVote ?p1 = toRemoveVote p"
    "toKeepCreateNonVotingMember ?p1 = toKeepCreateNonVotingMember p"
    "members ?p1 = members p" "machineVoting ?p1 = machineVoting p" "addrs ?p1 = addrs p"
    "isChanged ?p1 = (isChanged p \<or> toAddVote p \<noteq> [] \<or> toRemoveVote p \<noteq> [] \<or>
                              toKeepCreateNonVotingMember p \<noteq> [])"
    by simp_all
  from assms have "\<forall>mid\<in>set (toAddVote ?p1). members ?p1 mid \<noteq> None"
    by (simp only: f1) blast
  from setVoting_Some [OF this, of True] obtain p2 where p2:
    "setVoting (toAddVote ?p1) True ?p1 = Some p2" "dom (members p2) = dom (members ?p1)"
    "machineVoting p2 = (\<lambda>mid. if mid \<in> set (toAddVote ?p1) then Some True else machineVoting ?p1 mid)"
    "\<forall>b. bucketIds p2 b = bucketIds ?p1 b" "isChanged p2 = isChanged ?p1" "addrs p2 = addrs ?p1"
    by blast
  from p2(4) b1 have b2: "bucketIds p2 b = bucketIds p b" for b by simp
  from b2 [of ToRemoveVote] b2 [of ToKeepCreateNonVotingMember]
  have f2: "toRemoveVote p2 = toRemoveVote p" "toKeepCreateNonVotingMember p2 = toKeepCreateNonVotingMember p"
    by simp_all
  from assms p2(2) have "\<forall>mid\<in>set (toRemoveVote p2). members p2 mid \<noteq> None"
    unfolding f2 f1(4) by (metis UnCI domIff)
  from setVoting_Some [OF this, of False] obtain p3 where p3:
    "setVoting (toRemoveVote p2) False p2 = Some p3" "dom (members p3) = dom (members p2)"
    "machineVoting p3 = (\<lambda>mid. if mid \<in> set (toRemoveVote p2) then Some False else machineVoting p2 mid)"
    "\<forall>b. bucketIds p3 b = bucketIds p2 b" "isChanged p3 = isChanged p2" "addrs p3 = addrs p2"
    by blast
  from p3(4) b2 have b3: "bucketIds p3 b = bucketIds p b" for b by simp
  from b3 [of ToKeepCreateNonVotingMember]
  have f3: "toKeepCreateNonVotingMember p3 = toKeepCreateNonVotingMember p"
    by simp
  from assms p2(2) p3(2) have "\<forall>mid\<in>set (toKeepCreateNonVotingMember p3). members p3 mid \<noteq> None"
    unfolding f3 f1(4) by (metis UnCI domIff)
  from setVoting_Some [OF this, of False] obtain p4 where p4:
    "setVoting (toKeepCreateNonVotingMember p3) False p3 = Some p4" "dom (members p4) = dom (members p3)"
    "machineVoting p4 = (\<lambda>mid. if mid \<in> set (toKeepCreateNonVotingMember p3) then Some False else machineVoting p3 mid)"
    "\<forall>b. bucketIds p4 b = bucketIds p3 b" "isChanged p4 = isChanged p3" "addrs p4 = addrs p3"
    by blast
  have "adjustVotes p = Some p4"
    using p2(1) p3(1) p4(1) by (simp add: adjustVotes_def Let_def)
  moreover have "machineVoting p4 =
                (\<lambda>mid. if mid \<in> set (toKeepCreateNonVotingMember p) then Some False
                       else if mid \<in> set (toRemoveVote p) then Some False
                       else if mid \<in> set (toAddVote p) then Some True
                       else machineVoting p mid)"
    unfolding p4(3) p3(3) p2(3) f3 f2 f1 ..
  moreover have "dom (members p4) = dom (members p)"
    using p4(2) p3(2) p2(2) f1(4) by simp
  moreover have "\<forall>b. bucketIds p4 b = bucketIds p b"
    using p4(4) b3 by simp
  moreover have "addrs p4 = addrs p" using p4(6) p3(6) p2(6) f1(6) by simp
  moreover have "isChanged p4 = (isChanged p \<or> toAddVote p \<noteq> [] \<or> toRemoveVote p \<noteq> [] \<or>
                              toKeepCreateNonVotingMember p \<noteq> [])"
    using p4(5) p3(5) p2(5) f1(7) by simp
  ultimately show ?thesis by blast
qed

lemma updateAddress_machineVoting [simp]: "machineVoting (updateAddress e p) = machineVoting p"
  by (cases e) (simp add: updateAddress_def split: option.splits)

lemma updateAddresses_machineVoting [simp]: "machineVoting (updateAddresses p) = machineVoting p"
proof -
  have "machineVoting (fold updateAddress es p) = machineVoting p" for es
    by (induction es arbitrary: p) simp_all
  then show ?thesis by (simp add: updateAddresses_def)
qed

subsection \<open>The error of desiredPeerGroup\<close>

lemma find_None_conv: "find P xs = None \<longleftrightarrow> (\<forall>x\<in>set xs. \<not> P x)"
  by (induction xs) auto

lemma checkExtraMembers_Inl:
  "checkExtraMembers p ex = Inl e \<longleftrightarrow> (\<exists>m. find isVotingMember ex = Some m \<and> e = ErrExtraVotingMember m)"
  by (auto simp: checkExtraMembers_def split: option.splits)

lemma checkExtraMembers_Inr:
  "checkExtraMembers p ex = Inr p' \<longleftrightarrow>
     (\<forall>m\<in>set ex. \<not> isVotingMember m) \<and> p' = (if ex \<noteq> [] then p\<lparr>isChanged := True\<rparr> else p)"
  by (auto simp: checkExtraMembers_def find_None_conv split: option.splits dest: find_Some_set)

lemma selectAddresses_Inl:
  "selectAddresses info es a = Inl e \<Longrightarrow> \<exists>msg. e = ErrNoUsableAddress msg"
  by (induction info es a rule: selectAddresses.induct) (auto split: sum.splits)

lemma getMongoAddresses_Inl:
  "getMongoAddresses p info = Inl e \<Longrightarrow> \<exists>msg. e = ErrNoUsableAddress msg"
  by (auto simp: getMongoAddresses_def split: sum.splits dest: selectAddresses_Inl)

lemma desiredPeerGroup_error_cases:
  assumes "desiredPeerGroup info = Some ((ms, vs, Some e), info')"
  shows "ms = None \<and> vs = None \<and> info' = info \<and>
         (checkExtraMembers initialChanges (extra info) = Inl e \<or>
          (\<exists>p0. checkExtraMembers initialChanges (extra info) = Inr p0 \<and> getMongoAddresses p0 info = Inl e))"
  using assms
  by (auto simp: desiredPeerGroup_def Let_def split: sum.splits option.splits if_splits)

subsection \<open>The successful path of desiredPeerGroup\<close>

lemma desiredPeerGroup_Some:
  assumes "checkExtraMembers initialChanges (extra info) = Inr p0"
    and "getMongoAddresses p0 info = Inr p1"
    and "adjustVotes (beforeAdjust info p1) = Some p2"
  shows "desiredPeerGroup info =
           Some ((if isChanged (updateAddresses p2) then Some (members (updateAddresses p2)) else None,
                  Some (machineVoting (updateAddresses p2)), None),
                 info\<lparr>maxMemberId := snd (synthesised info p1)\<rparr>)"
  using assms by (simp add: desiredPeerGroup_def Let_def)

subsection \<open>The stages on an assembled snapshot\<close>


lemma assembled_statuses_recognised:
  assumes "newPeerGroupInfo ms stss mems port space = Inr info"
  shows "dom (statuses info) \<inter> dom (machines info) \<subseteq> dom (recognised info)"
proof
  fix k
  assume k: "k \<in> dom (statuses info) \<inter> dom (machines info)"
  note I = newPeerGroupInfo_Inr [OF assms]
  from k obtain m where m: "m \<in> set mems" "Tags m jujuMachineKey = Some k"
    by (auto simp: I(5))
  then have "filter (\<lambda>m'. Tags m' jujuMachineKey = Some k) mems \<noteq> []"
    by (auto simp: filter_empty_conv)
  with k show "k \<in> dom (recognised info)"
    by (auto simp: I(2) I(4) [of k] find_rev_last)
qed

lemma reviewPeerGroupChanges_toAddVote:
  "set (toAddVote (reviewPeerGroupChanges p info)) \<subseteq> set (toAddVote p)"
  by (auto simp: reviewPeerGroupChanges_def demoteFirstNonPrimary_same dest: in_set_takeD)

lemma tableBucket_member:
  "tableBucket w v r e = ToAddVote \<Longrightarrow> r"
  "tableBucket w v r e = ToKeepCreateNonVotingMember \<Longrightarrow> \<not> e"
  by (cases w; cases v; cases r; cases e; simp)+

lemma votingIn_member: "votingIn mems mid \<Longrightarrow> mems mid \<noteq> None"
  by (auto simp: votingIn_def)

lemma readyIn_status: "readyIn info mid \<Longrightarrow> statuses info mid \<noteq> None"
  by (auto simp: readyIn_def)

lemma synthesised_result:
  assumes "\<forall>b. bucketIds p b = []"
  shows "sameBuckets (fst (synthesised info p)) (reviewed info p)"
    and "snd (synthesised info p) = maxMemberId info + of_nat (length (createdIds (reviewed info p)))"
    and "mid \<notin> set (createdIds (reviewed info p)) \<Longrightarrow>
           members (fst (synthesised info p)) mid = recognised info mid"
    and "i < length (createdIds (reviewed info p)) \<Longrightarrow>
           members (fst (synthesised info p)) (createdIds (reviewed info p) ! i) =
             Some (newNonVotingMember (createdIds (reviewed info p) ! i) (maxMemberId info + 1 + of_nat i))"
proof -
  have d1: "distinct (toKeepCreateNonVotingMember (reviewed info p))"
    by (rule reviewed_distinct(1) [OF assms])
  have d2: "distinct (toKeepNonVoting (reviewed info p))"
    by (rule reviewed_distinct(2) [OF assms])
  note S = createNonVotingMember_result [OF d1 d2, where maxId = "maxMemberId info", folded synthesised_def]
  from S(1) show "sameBuckets (fst (synthesised info p)) (reviewed info p)" .
  from S(2) show "snd (synthesised info p) = maxMemberId info + of_nat (length (createdIds (reviewed info p)))" .
  from S(3) show "mid \<notin> set (createdIds (reviewed info p)) \<Longrightarrow>
           members (fst (synthesised info p)) mid = recognised info mid"
    by simp
  from S(4) show "i < length (createdIds (reviewed info p)) \<Longrightarrow>
           members (fst (synthesised info p)) (createdIds (reviewed info p) ! i) =
             Some (newNonVotingMember (createdIds (reviewed info p) ! i) (maxMemberId info + 1 + of_nat i))" .
qed

lemma synthesised_members_dom:
  assumes "\<forall>b. bucketIds p b = []"
  shows "dom (members (fst (synthesised info p))) =
           dom (recognised info) \<union> set (createdIds (reviewed info p))"
proof -
  note S = synthesised_result [OF assms, where info = info]
  have "mid \<in> dom (members (fst (synthesised info p))) \<longleftrightarrow>
        mid \<in> dom (recognised info) \<union> set (createdIds (reviewed info p))" for mid
  proof (cases "mid \<in> set (createdIds (reviewed info p))")
    case True
    then obtain i where "i < length (createdIds (reviewed info p))" "createdIds (reviewed info p) ! i = mid"
      by (auto simp: in_set_conv_nth)
    with S(4) [of i] True show ?thesis by auto
  next
    case False
    with S(3) [of mid] show ?thesis by (simp add: domIff)
  qed
  then show ?thesis by blast
qed

lemma beforeAdjust_same:
  assumes "\<forall>b. bucketIds p b = []"
  shows "members (beforeAdjust info p) = members (fst (synthesised info p))"
    and "toAddVote (beforeAdjust info p) = toAddVote (reviewed info p)"
    and "toRemoveVote (beforeAdjust info p) = toRemoveVote (reviewed info p)"
    and "toKeepCreateNonVotingMember (beforeAdjust info p) = toKeepCreateNonVotingMember (reviewed info p)"
    and "isChanged (beforeAdjust info p) = isChanged p"
    and "addrs (beforeAdjust info p) = addrs p"
proof -
  let ?s = "fst (synthesised info p)"
  note G = getMachinesVoting_same [of ?s, folded beforeAdjust_def]
  note F = sameBuckets_fields [OF synthesised_result(1) [OF assms, where info = info]]
  from G show "members (beforeAdjust info p) = members ?s" by simp
  from G have b: "bucketIds (beforeAdjust info p) b = bucketIds ?s b" for b by simp
  from b [of ToAddVote] F(2) show "toAddVote (beforeAdjust info p) = toAddVote (reviewed info p)"
    by simp
  from b [of ToRemoveVote] F(5) show "toRemoveVote (beforeAdjust info p) = toRemoveVote (reviewed info p)"
    by simp
  from b [of ToKeepCreateNonVotingMember] F(4)
  show "toKeepCreateNonVotingMember (beforeAdjust info p) = toKeepCreateNonVotingMember (reviewed info p)"
    by simp
  from G F(6) show "isChanged (beforeAdjust info p) = isChanged p"
    by (simp add: reviewed_def reviewPeerGroupChanges_same classified_def possiblePeerGroupChanges_def)
  from G F(8) show "addrs (beforeAdjust info p) = addrs p"
    by (simp add: reviewed_def reviewPeerGroupChanges_same classified_def possiblePeerGroupChanges_def)
qed

text \<open>On an assembled snapshot every machine id that \<^verbatim>\<open>adjustVotes\<close> touches has a member.\<close>

lemma beforeAdjust_members_present:
  assumes a: "newPeerGroupInfo ms stss mems port space = Inr info"
    and e: "\<forall>b. bucketIds p b = []"
    and mid: "mid \<in> set (toAddVote (beforeAdjust info p)) \<union> set (toRemoveVote (beforeAdjust info p)) \<union>
            set (toKeepCreateNonVotingMember (beforeAdjust info p))"
  shows "members (beforeAdjust info p) mid \<noteq> None"
proof -
  note B = beforeAdjust_same [OF e, where info = info]
  have dom: "dom (members (beforeAdjust info p)) = dom (recognised info) \<union> set (createdIds (reviewed info p))"
    by (simp add: B(1) synthesised_members_dom [OF e])
  from e have eb: "bucketIds p b = []" for b by blast
  from mid consider
    (add) "mid \<in> set (toAddVote (reviewed info p))" |
    (remove) "mid \<in> set (toRemoveVote (reviewed info p))" |
    (create) "mid \<in> set (toKeepCreateNonVotingMember (reviewed info p))"
    by (auto simp: B)
  then have "mid \<in> dom (recognised info) \<union> set (createdIds (reviewed info p))"
  proof cases
    case add
    with reviewPeerGroupChanges_toAddVote [of "classified info p" info]
    have "mid \<in> set (bucketIds (classified info p) ToAddVote)"
      by (auto simp: reviewed_def)
    with classified_bucket_mem [OF eb, of mid info ToAddVote]
    obtain m where m: "(mid, m) \<in> set (rangeMap (machines info))"
      and b: "bucketFor info (recognised info) (mid, m) = ToAddVote"
      by auto
    from b have "readyIn info mid"
      by (auto simp: bucketFor_def dest: tableBucket_member(1))
    with m have "mid \<in> dom (statuses info) \<inter> dom (machines info)"
      by (auto dest: readyIn_status rangeMap_lookup)
    with assembled_statuses_recognised [OF a] show ?thesis by blast
  next
    case remove
    with reviewPeerGroupChanges_toRemoveVote [of "classified info p" info]
    have "mid \<in> set (bucketIds (classified info p) ToRemoveVote) \<or>
          mid \<in> set (bucketIds (classified info p) ToKeepVoting)"
      by (auto simp: reviewed_def)
    with classified_bucket_mem [OF eb, of mid info ToRemoveVote]
         classified_bucket_mem [OF eb, of mid info ToKeepVoting]
    have "votingIn (recognised info) mid"
      by (auto simp: bucketFor_def tableBucket_ToRemoveVote tableBucket_ToKeepVoting)
    then show ?thesis by (auto dest: votingIn_member)
  next
    case create
    then show ?thesis by (simp add: createdIds_def)
  qed
  with dom show ?thesis by blast
qed

lemma checked_changes:
  assumes "checkExtraMembers initialChanges ex = Inr p0" and "getMongoAddresses p0 info = Inr p1"
  shows "(\<forall>b. bucketIds p1 b = []) \<and> machineVoting p1 = Map.empty \<and> isChanged p1 = (ex \<noteq> [])"
proof -
  from assms(1) have p0: "p0 = (if ex \<noteq> [] then initialChanges\<lparr>isChanged := True\<rparr> else initialChanges)"
    by (simp add: checkExtraMembers_Inr)
  from assms(2) obtain a where p1: "p1 = p0\<lparr>addrs := a\<rparr>"
    by (auto simp: getMongoAddresses_def split: sum.splits)
  have "bucketIds p1 b = []" for b
    by (cases b) (simp_all add: p1 p0 initialChanges_def)
  then show ?thesis by (simp add: p1 p0 initialChanges_def)
qed


subsection \<open>Counting the voters\<close>


















section \<open>Concrete snapshots\<close>

subsection \<open>Values\<close>

text \<open>A tracker that answers \<open>wants\<close> to \<^verbatim>\<open>WantsVote\<close> and whose selector always picks the
  address \<open>addr\<close>; a member with the machine-id tag, one without any tag; a status.\<close>

definition tracker :: "bool \<Rightarrow> string \<Rightarrow> machineTracker" where
  "tracker wants addr = \<lparr>WantsVote = wants, SelectMongoAddress = (\<lambda>port space. Inr addr)\<rparr>"

definition taggedMember :: "go_int \<Rightarrow> string \<Rightarrow> string \<Rightarrow> int option \<Rightarrow> Member" where
  "taggedMember i addr mid votes =
     \<lparr>Id = i, Address = addr, Tags = [jujuMachineKey \<mapsto> mid], Votes = votes, Priority = None\<rparr>"

definition untaggedMember :: "go_int \<Rightarrow> string \<Rightarrow> int option \<Rightarrow> Member" where
  "untaggedMember i addr votes =
     \<lparr>Id = i, Address = addr, Tags = Map.empty, Votes = votes, Priority = None\<rparr>"

definition statusOf :: "go_int \<Rightarrow> MemberState \<Rightarrow> bool \<Rightarrow> MemberStatus" where
  "statusOf i st h = \<lparr>StatusId = i, StatusAddress = [], Healthy = h, State = st\<rparr>"

subsection \<open>Snapshots\<close>

text \<open>The definitions that evaluate each stage on a concrete snapshot.\<close>

lemmas value_defs = tracker_def taggedMember_def untaggedMember_def statusOf_def zeroStatus_def

lemmas assemble_defs = newPeerGroupInfo_def addMember_def linkStatuses_def word_sless_alt

lemmas classify_defs = classified_def possiblePeerGroupChanges_def initNewReplicaSet_def rangeMap_def
  classify_def initialChanges_def isVotingMember_def isReady_def

lemmas review_defs = reviewed_def reviewPeerGroupChanges_def demoteFirstNonPrimary_def keptVoters_def
  currVoters_def rangeMap_def isVotingMember_def isPrimaryMember_def signed_modulo_int_def

lemmas create_defs = synthesised_def createNonVotingMember_def createMissingMember_def createMember_def
  newNonVotingMember_def setMemberVoting_def

lemmas voting_defs = beforeAdjust_def getMachinesVoting_def recordVoting_def rangeMap_def
  isVotingMember_def

lemmas adjust_defs = adjustVotes_def setMemberVoting_def

lemmas address_defs = updateAddresses_def updateAddress_def rangeMap_def

lemma initialChanges_addrs_buckets: "bucketIds (initialChanges\<lparr>addrs := a\<rparr>) b = []"
  by (cases b) (simp_all add: initialChanges_def)

text \<open>Three voting machines, the first the primary, and a fourth machine that wants the vote
  and whose member is a healthy non-voting secondary (scenario S2 of the spec).\<close>

definition fourMachines :: "string \<rightharpoonup> machineTracker" where
  "fourMachines =
     [''0'' \<mapsto> tracker True ''10.0.0.1:37017'', ''1'' \<mapsto> tracker True ''10.0.0.2:37017'',
      ''2'' \<mapsto> tracker True ''10.0.0.3:37017'', ''3'' \<mapsto> tracker True ''10.0.0.4:37017'']"

definition fourthReadyInfo :: peerGroupInfo where
  "fourthReadyInfo =
     \<lparr>machines = fourMachines,
      recognised =
        [''0'' \<mapsto> taggedMember 1 ''10.0.0.1:37017'' ''0'' None,
         ''1'' \<mapsto> taggedMember 2 ''10.0.0.2:37017'' ''1'' None,
         ''2'' \<mapsto> taggedMember 3 ''10.0.0.3:37017'' ''2'' None,
         ''3'' \<mapsto> taggedMember 4 ''10.0.0.4:37017'' ''3'' (Some 0)],
      statuses =
        [''0'' \<mapsto> statusOf 1 PrimaryState True, ''1'' \<mapsto> statusOf 2 SecondaryState True,
         ''2'' \<mapsto> statusOf 3 SecondaryState True, ''3'' \<mapsto> statusOf 4 SecondaryState True],
      extra = [], maxMemberId = 4, mongoPort = 37017, haSpace = []\<rparr>"

definition fourthReadyMembers :: "Member list" where
  "fourthReadyMembers =
     [taggedMember 1 ''10.0.0.1:37017'' ''0'' None, taggedMember 2 ''10.0.0.2:37017'' ''1'' None,
      taggedMember 3 ''10.0.0.3:37017'' ''2'' None, taggedMember 4 ''10.0.0.4:37017'' ''3'' (Some 0)]"

definition fourthReadyStatuses :: "MemberStatus list" where
  "fourthReadyStatuses =
     [statusOf 1 PrimaryState True, statusOf 2 SecondaryState True,
      statusOf 3 SecondaryState True, statusOf 4 SecondaryState True]"

lemma fourthReady_assembled:
  "newPeerGroupInfo fourMachines fourthReadyStatuses fourthReadyMembers 37017 [] = Inr fourthReadyInfo"
  by (simp add: assemble_defs fourthReadyInfo_def fourMachines_def fourthReadyStatuses_def
      fourthReadyMembers_def value_defs)

lemma fourthReady_classified:
  "classified fourthReadyInfo initialChanges =
     initialChanges\<lparr>toAddVote := [''3''], toKeepVoting := [''0'', ''1'', ''2''],
                    members := recognised fourthReadyInfo\<rparr>"
  by (simp add: classify_defs fourthReadyInfo_def fourMachines_def value_defs)

text \<open>A voting machine and a member without machine-id tag that still votes (scenario S5
  of the spec).\<close>

definition extraVoterInfo :: peerGroupInfo where
  "extraVoterInfo =
     \<lparr>machines = [''0'' \<mapsto> tracker True ''10.0.0.1:37017''],
      recognised = [''0'' \<mapsto> taggedMember 1 ''10.0.0.1:37017'' ''0'' None],
      statuses = [''0'' \<mapsto> statusOf 1 PrimaryState True],
      extra = [untaggedMember 2 ''10.0.0.2:37017'' (Some 1)],
      maxMemberId = 2, mongoPort = 37017, haSpace = []\<rparr>"

lemma extraVoter_assembled:
  "newPeerGroupInfo [''0'' \<mapsto> tracker True ''10.0.0.1:37017''] [statusOf 1 PrimaryState True]
     [taggedMember 1 ''10.0.0.1:37017'' ''0'' None, untaggedMember 2 ''10.0.0.2:37017'' (Some 1)]
     37017 [] = Inr extraVoterInfo"
  by (simp add: assemble_defs extraVoterInfo_def value_defs)

text \<open>Two voting machines. Machine \<open>0\<close> holds the primary and no longer wants the vote;
  machine \<open>1\<close> is a secondary that keeps it.\<close>

definition primaryLeavesMachines :: "string \<rightharpoonup> machineTracker" where
  "primaryLeavesMachines =
     [''0'' \<mapsto> tracker False ''10.0.0.1:37017'', ''1'' \<mapsto> tracker True ''10.0.0.2:37017'']"

definition primaryLeavesMembers :: "Member list" where
  "primaryLeavesMembers =
     [taggedMember 1 ''10.0.0.1:37017'' ''0'' None, taggedMember 2 ''10.0.0.2:37017'' ''1'' None]"

definition primaryLeavesStatuses :: "MemberStatus list" where
  "primaryLeavesStatuses = [statusOf 1 PrimaryState True, statusOf 2 SecondaryState True]"

definition primaryLeavesInfo :: peerGroupInfo where
  "primaryLeavesInfo =
     \<lparr>machines = primaryLeavesMachines,
      recognised =
        [''0'' \<mapsto> taggedMember 1 ''10.0.0.1:37017'' ''0'' None,
         ''1'' \<mapsto> taggedMember 2 ''10.0.0.2:37017'' ''1'' None],
      statuses = [''0'' \<mapsto> statusOf 1 PrimaryState True, ''1'' \<mapsto> statusOf 2 SecondaryState True],
      extra = [], maxMemberId = 2, mongoPort = 37017, haSpace = []\<rparr>"

lemma primaryLeaves_assembled:
  "newPeerGroupInfo primaryLeavesMachines primaryLeavesStatuses primaryLeavesMembers 37017 [] =
     Inr primaryLeavesInfo"
  by (simp add: assemble_defs primaryLeavesInfo_def primaryLeavesMachines_def
      primaryLeavesStatuses_def primaryLeavesMembers_def value_defs)

text \<open>One machine, a healthy secondary and the only voter, that no longer wants the vote.\<close>

definition soleVoterLeavesMachines :: "string \<rightharpoonup> machineTracker" where
  "soleVoterLeavesMachines = [''0'' \<mapsto> tracker False ''10.0.0.1:37017'']"



definition soleVoterLeavesInfo :: peerGroupInfo where
  "soleVoterLeavesInfo =
     \<lparr>machines = soleVoterLeavesMachines,
      recognised = [''0'' \<mapsto> taggedMember 1 ''10.0.0.1:37017'' ''0'' None],
      statuses = [''0'' \<mapsto> statusOf 1 SecondaryState True],
      extra = [], maxMemberId = 1, mongoPort = 37017, haSpace = []\<rparr>"


text \<open>A voting primary on machine \<open>0\<close>, and a machine \<open>1\<close> that does not want the vote, has
  no member yet and for which the selector has no address this tick (the empty string that
  \<^verbatim>\<open>updateAddresses\<close> skips).\<close>

definition quietMachines :: "string \<rightharpoonup> machineTracker" where
  "quietMachines = [''0'' \<mapsto> tracker True ''10.0.0.1:37017'', ''1'' \<mapsto> tracker False []]"

definition quietMembers :: "Member list" where
  "quietMembers = [taggedMember 1 ''10.0.0.1:37017'' ''0'' None]"

definition quietStatuses :: "MemberStatus list" where
  "quietStatuses = [statusOf 1 PrimaryState True]"

definition quietInfo :: peerGroupInfo where
  "quietInfo =
     \<lparr>machines = quietMachines,
      recognised = [''0'' \<mapsto> taggedMember 1 ''10.0.0.1:37017'' ''0'' None],
      statuses = [''0'' \<mapsto> statusOf 1 PrimaryState True],
      extra = [], maxMemberId = 1, mongoPort = 37017, haSpace = []\<rparr>"

lemma quiet_assembled:
  "newPeerGroupInfo quietMachines quietStatuses quietMembers 37017 [] = Inr quietInfo"
  by (simp add: assemble_defs quietInfo_def quietMachines_def quietStatuses_def quietMembers_def
      value_defs)

text \<open>A voting primary whose member id is the greatest 64-bit integer, and a new machine
  \<open>1\<close> that wants the vote and has no member yet.\<close>

definition lastIdMachines :: "string \<rightharpoonup> machineTracker" where
  "lastIdMachines =
     [''0'' \<mapsto> tracker True ''10.0.0.1:37017'', ''1'' \<mapsto> tracker True ''10.0.0.2:37017'']"

definition lastIdMembers :: "Member list" where
  "lastIdMembers = [taggedMember 9223372036854775807 ''10.0.0.1:37017'' ''0'' None]"

definition lastIdStatuses :: "MemberStatus list" where
  "lastIdStatuses = [statusOf 9223372036854775807 PrimaryState True]"

definition lastIdInfo :: peerGroupInfo where
  "lastIdInfo =
     \<lparr>machines = lastIdMachines,
      recognised = [''0'' \<mapsto> taggedMember 9223372036854775807 ''10.0.0.1:37017'' ''0'' None],
      statuses = [''0'' \<mapsto> statusOf 9223372036854775807 PrimaryState True],
      extra = [], maxMemberId = 9223372036854775807, mongoPort = 37017, haSpace = []\<rparr>"

lemma lastId_assembled:
  "newPeerGroupInfo lastIdMachines lastIdStatuses lastIdMembers 37017 [] = Inr lastIdInfo"
  by (simp add: assemble_defs lastIdInfo_def lastIdMachines_def lastIdStatuses_def lastIdMembers_def
      value_defs)

subsection \<open>The stages on the concrete snapshots\<close>


text \<open>The primary's machine leaves the voters: the classifier puts it in \<^verbatim>\<open>toRemoveVote\<close>, one
  voter is kept, and the adjuster has nothing to change.\<close>

definition primaryLeavesChecked :: peerGroupChanges where
  "primaryLeavesChecked =
     initialChanges\<lparr>addrs := [''0'' \<mapsto> ''10.0.0.1:37017'', ''1'' \<mapsto> ''10.0.0.2:37017'']\<rparr>"

lemmas primaryLeaves_defs = primaryLeavesInfo_def primaryLeavesMachines_def primaryLeavesChecked_def
  initialChanges_def value_defs

lemma primaryLeaves_checkExtra:
  "checkExtraMembers initialChanges (extra primaryLeavesInfo) = Inr initialChanges"
  by (simp add: checkExtraMembers_def primaryLeavesInfo_def)

lemma primaryLeaves_addresses:
  "getMongoAddresses initialChanges primaryLeavesInfo = Inr primaryLeavesChecked"
  by (simp add: getMongoAddresses_def rangeMap_def primaryLeaves_defs)

definition primaryLeavesClassified :: peerGroupChanges where
  "primaryLeavesClassified =
     primaryLeavesChecked\<lparr>members := recognised primaryLeavesInfo,
        toRemoveVote := [''0''], toKeepVoting := [''1'']\<rparr>"

lemma primaryLeaves_classified:
  "classified primaryLeavesInfo primaryLeavesChecked = primaryLeavesClassified"
  by (simp add: classify_defs primaryLeaves_defs primaryLeavesClassified_def)

lemma primaryLeaves_currVoters:
  "currVoters primaryLeavesClassified = 2"
  by (simp add: currVoters_def rangeMap_def isVotingMember_def primaryLeaves_defs
      primaryLeavesClassified_def)

lemma primaryLeaves_keptVoters:
  "keptVoters primaryLeavesClassified = 1"
  by (simp add: keptVoters_def primaryLeaves_currVoters)
     (simp add: primaryLeavesClassified_def primaryLeaves_defs)

lemma primaryLeaves_reviewed:
  "reviewed primaryLeavesInfo primaryLeavesChecked = primaryLeavesClassified"
  unfolding reviewed_def primaryLeaves_classified
  by (simp add: review_defs primaryLeaves_defs primaryLeavesClassified_def)

lemma primaryLeaves_synthesised:
  "synthesised primaryLeavesInfo primaryLeavesChecked =
     (primaryLeavesClassified, 2)"
  unfolding synthesised_def primaryLeaves_reviewed
  by (simp add: create_defs primaryLeaves_defs primaryLeavesClassified_def)

lemma primaryLeaves_beforeAdjust:
  "beforeAdjust primaryLeavesInfo primaryLeavesChecked =
     primaryLeavesClassified\<lparr>machineVoting := [''0'' \<mapsto> True, ''1'' \<mapsto> True]\<rparr>"
  unfolding beforeAdjust_def primaryLeaves_synthesised
  by (simp add: voting_defs create_defs primaryLeaves_defs primaryLeavesClassified_def)

definition primaryLeavesAdjusted :: peerGroupChanges where
  "primaryLeavesAdjusted =
     primaryLeavesClassified\<lparr>isChanged := True,
        members := [''0'' \<mapsto> (taggedMember 1 ''10.0.0.1:37017'' ''0'' (Some 0))\<lparr>Priority := Some 0\<rparr>,
                    ''1'' \<mapsto> taggedMember 2 ''10.0.0.2:37017'' ''1'' None],
        machineVoting := [''0'' \<mapsto> False, ''1'' \<mapsto> True]\<rparr>"

lemma primaryLeaves_adjusted:
  "adjustVotes (beforeAdjust primaryLeavesInfo primaryLeavesChecked) = Some primaryLeavesAdjusted"
  unfolding primaryLeaves_beforeAdjust
  by (simp add: adjust_defs create_defs primaryLeaves_defs primaryLeavesClassified_def
      primaryLeavesAdjusted_def fun_eq_iff)

lemma primaryLeaves_updated:
  "updateAddresses primaryLeavesAdjusted = primaryLeavesAdjusted"
  by (simp add: address_defs create_defs primaryLeaves_defs primaryLeavesClassified_def
      primaryLeavesAdjusted_def fun_eq_iff)

lemma primaryLeaves_desired:
  "desiredPeerGroup primaryLeavesInfo =
     Some ((Some [''0'' \<mapsto> (taggedMember 1 ''10.0.0.1:37017'' ''0'' (Some 0))\<lparr>Priority := Some 0\<rparr>,
                  ''1'' \<mapsto> taggedMember 2 ''10.0.0.2:37017'' ''1'' None],
            Some [''0'' \<mapsto> False, ''1'' \<mapsto> True], None),
           primaryLeavesInfo)"
  unfolding desiredPeerGroup_Some [OF primaryLeaves_checkExtra primaryLeaves_addresses
      primaryLeaves_adjusted] primaryLeaves_updated primaryLeaves_synthesised
  by (simp add: create_defs primaryLeavesAdjusted_def primaryLeavesClassified_def primaryLeaves_defs
      fun_eq_iff)


text \<open>The only voter leaves and it is not the primary: no voter is kept, none is added, and the
  adjuster, which looks for a primary to keep, finds none.\<close>

definition soleVoterLeavesChecked :: peerGroupChanges where
  "soleVoterLeavesChecked =
     initialChanges\<lparr>addrs := [''0'' \<mapsto> ''10.0.0.1:37017'']\<rparr>"

lemmas soleVoterLeaves_defs = soleVoterLeavesInfo_def soleVoterLeavesMachines_def soleVoterLeavesChecked_def
  initialChanges_def value_defs



definition soleVoterLeavesClassified :: peerGroupChanges where
  "soleVoterLeavesClassified =
     soleVoterLeavesChecked\<lparr>members := recognised soleVoterLeavesInfo,
        toRemoveVote := [''0'']\<rparr>"


lemma soleVoterLeaves_currVoters:
  "currVoters soleVoterLeavesClassified = 1"
  by (simp add: currVoters_def rangeMap_def isVotingMember_def soleVoterLeaves_defs
      soleVoterLeavesClassified_def)

lemma soleVoterLeaves_keptVoters:
  "keptVoters soleVoterLeavesClassified = 0"
  by (simp add: keptVoters_def soleVoterLeaves_currVoters)
     (simp add: soleVoterLeavesClassified_def soleVoterLeaves_defs)









text \<open>A member is created for machine \<open>1\<close> by the second loop of \<^verbatim>\<open>createNonVotingMember\<close>;
  nothing marks the changes as changed.\<close>

definition quietChecked :: peerGroupChanges where
  "quietChecked =
     initialChanges\<lparr>addrs := [''0'' \<mapsto> ''10.0.0.1:37017'', ''1'' \<mapsto> []]\<rparr>"

lemmas quiet_defs = quietInfo_def quietMachines_def quietChecked_def
  initialChanges_def value_defs

lemma quiet_checkExtra:
  "checkExtraMembers initialChanges (extra quietInfo) = Inr initialChanges"
  by (simp add: checkExtraMembers_def quietInfo_def)

lemma quiet_addresses:
  "getMongoAddresses initialChanges quietInfo = Inr quietChecked"
  by (simp add: getMongoAddresses_def rangeMap_def quiet_defs)

definition quietClassified :: peerGroupChanges where
  "quietClassified =
     quietChecked\<lparr>members := recognised quietInfo,
        toKeepVoting := [''0''], toKeepNonVoting := [''1'']\<rparr>"

lemma quiet_classified:
  "classified quietInfo quietChecked = quietClassified"
  by (simp add: classify_defs quiet_defs quietClassified_def)

lemma quiet_currVoters:
  "currVoters quietClassified = 1"
  by (simp add: currVoters_def rangeMap_def isVotingMember_def quiet_defs
      quietClassified_def)

lemma quiet_keptVoters:
  "keptVoters quietClassified = 1"
  by (simp add: keptVoters_def quiet_currVoters)
     (simp add: quietClassified_def quiet_defs)

lemma quiet_reviewed:
  "reviewed quietInfo quietChecked = quietClassified"
  unfolding reviewed_def quiet_classified
  by (simp add: review_defs quiet_defs quietClassified_def)

lemma quiet_synthesised:
  "synthesised quietInfo quietChecked =
     (quietClassified\<lparr>members := [''0'' \<mapsto> taggedMember 1 ''10.0.0.1:37017'' ''0'' None, ''1'' \<mapsto> newNonVotingMember ''1'' 2]\<rparr>, 2)"
  unfolding synthesised_def quiet_reviewed
  by (simp add: create_defs quiet_defs quietClassified_def)

lemma quiet_beforeAdjust:
  "beforeAdjust quietInfo quietChecked =
     quietClassified\<lparr>members := [''0'' \<mapsto> taggedMember 1 ''10.0.0.1:37017'' ''0'' None, ''1'' \<mapsto> newNonVotingMember ''1'' 2],
        machineVoting := [''0'' \<mapsto> True, ''1'' \<mapsto> False]\<rparr>"
  unfolding beforeAdjust_def quiet_synthesised
  by (simp add: voting_defs create_defs quiet_defs quietClassified_def)

definition quietAdjusted :: peerGroupChanges where
  "quietAdjusted =
     quietClassified\<lparr>members := [''0'' \<mapsto> taggedMember 1 ''10.0.0.1:37017'' ''0'' None, ''1'' \<mapsto> newNonVotingMember ''1'' 2],
        machineVoting := [''0'' \<mapsto> True, ''1'' \<mapsto> False]\<rparr>"

lemma quiet_adjusted:
  "adjustVotes (beforeAdjust quietInfo quietChecked) = Some quietAdjusted"
  unfolding quiet_beforeAdjust
  by (simp add: adjust_defs create_defs quiet_defs quietClassified_def
      quietAdjusted_def fun_eq_iff)

lemma quiet_updated:
  "updateAddresses quietAdjusted = quietAdjusted"
  by (simp add: address_defs create_defs quiet_defs quietClassified_def
      quietAdjusted_def fun_eq_iff)

lemma quiet_desired:
  "desiredPeerGroup quietInfo =
     Some ((None,
            Some [''0'' \<mapsto> True, ''1'' \<mapsto> False], None),
           quietInfo\<lparr>maxMemberId := 2\<rparr>)"
  unfolding desiredPeerGroup_Some [OF quiet_checkExtra quiet_addresses
      quiet_adjusted] quiet_updated quiet_synthesised
  by (simp add: create_defs quietAdjusted_def quietClassified_def quiet_defs
      fun_eq_iff)


text \<open>The member created for machine \<open>1\<close> takes the id after the greatest 64-bit integer.\<close>

definition lastIdChecked :: peerGroupChanges where
  "lastIdChecked =
     initialChanges\<lparr>addrs := [''0'' \<mapsto> ''10.0.0.1:37017'', ''1'' \<mapsto> ''10.0.0.2:37017'']\<rparr>"

lemmas lastId_defs = lastIdInfo_def lastIdMachines_def lastIdChecked_def
  initialChanges_def value_defs

lemma lastId_checkExtra:
  "checkExtraMembers initialChanges (extra lastIdInfo) = Inr initialChanges"
  by (simp add: checkExtraMembers_def lastIdInfo_def)

lemma lastId_addresses:
  "getMongoAddresses initialChanges lastIdInfo = Inr lastIdChecked"
  by (simp add: getMongoAddresses_def rangeMap_def lastId_defs)

definition lastIdClassified :: peerGroupChanges where
  "lastIdClassified =
     lastIdChecked\<lparr>members := recognised lastIdInfo,
        toKeepVoting := [''0''], toKeepCreateNonVotingMember := [''1'']\<rparr>"

lemma lastId_classified:
  "classified lastIdInfo lastIdChecked = lastIdClassified"
  by (simp add: classify_defs lastId_defs lastIdClassified_def)

lemma lastId_currVoters:
  "currVoters lastIdClassified = 1"
  by (simp add: currVoters_def rangeMap_def isVotingMember_def lastId_defs
      lastIdClassified_def)

lemma lastId_keptVoters:
  "keptVoters lastIdClassified = 1"
  by (simp add: keptVoters_def lastId_currVoters)
     (simp add: lastIdClassified_def lastId_defs)

lemma lastId_reviewed:
  "reviewed lastIdInfo lastIdChecked = lastIdClassified"
  unfolding reviewed_def lastId_classified
  by (simp add: review_defs lastId_defs lastIdClassified_def)

lemma lastId_synthesised:
  "synthesised lastIdInfo lastIdChecked =
     (lastIdClassified\<lparr>members := [''0'' \<mapsto> taggedMember 9223372036854775807 ''10.0.0.1:37017'' ''0'' None,
                    ''1'' \<mapsto> newNonVotingMember ''1'' (9223372036854775807 + 1)]\<rparr>, 9223372036854775807 + 1)"
  unfolding synthesised_def lastId_reviewed
  by (simp add: create_defs lastId_defs lastIdClassified_def)

lemma lastId_beforeAdjust:
  "beforeAdjust lastIdInfo lastIdChecked =
     lastIdClassified\<lparr>members := [''0'' \<mapsto> taggedMember 9223372036854775807 ''10.0.0.1:37017'' ''0'' None,
                    ''1'' \<mapsto> newNonVotingMember ''1'' (9223372036854775807 + 1)],
        machineVoting := [''0'' \<mapsto> True, ''1'' \<mapsto> False]\<rparr>"
  unfolding beforeAdjust_def lastId_synthesised
  by (simp add: voting_defs create_defs lastId_defs lastIdClassified_def)

definition lastIdAdjusted :: peerGroupChanges where
  "lastIdAdjusted =
     lastIdClassified\<lparr>isChanged := True,
        members := [''0'' \<mapsto> taggedMember 9223372036854775807 ''10.0.0.1:37017'' ''0'' None,
                    ''1'' \<mapsto> newNonVotingMember ''1'' (9223372036854775807 + 1)],
        machineVoting := [''0'' \<mapsto> True, ''1'' \<mapsto> False]\<rparr>"

lemma lastId_adjusted:
  "adjustVotes (beforeAdjust lastIdInfo lastIdChecked) = Some lastIdAdjusted"
  unfolding lastId_beforeAdjust
  by (simp add: adjust_defs create_defs lastId_defs lastIdClassified_def
      lastIdAdjusted_def fun_eq_iff)

lemma lastId_updated:
  "updateAddresses lastIdAdjusted = lastIdAdjusted\<lparr>members := [''0'' \<mapsto> taggedMember 9223372036854775807 ''10.0.0.1:37017'' ''0'' None,
                    ''1'' \<mapsto> (newNonVotingMember ''1'' (9223372036854775807 + 1))\<lparr>Address := ''10.0.0.2:37017''\<rparr>]\<rparr>"
  by (simp add: address_defs create_defs lastId_defs lastIdClassified_def
      lastIdAdjusted_def fun_eq_iff)

lemma lastId_desired:
  "desiredPeerGroup lastIdInfo =
     Some ((Some [''0'' \<mapsto> taggedMember 9223372036854775807 ''10.0.0.1:37017'' ''0'' None,
                    ''1'' \<mapsto> (newNonVotingMember ''1'' (9223372036854775807 + 1))\<lparr>Address := ''10.0.0.2:37017''\<rparr>],
            Some [''0'' \<mapsto> True, ''1'' \<mapsto> False], None),
           lastIdInfo\<lparr>maxMemberId := 9223372036854775807 + 1\<rparr>)"
  unfolding desiredPeerGroup_Some [OF lastId_checkExtra lastId_addresses
      lastId_adjusted] lastId_updated lastId_synthesised
  by (simp add: create_defs lastIdAdjusted_def lastIdClassified_def lastId_defs
      fun_eq_iff)




section \<open>The claims\<close>

subsection \<open>C1: the number of voters\<close>






subsection \<open>C2: the primary and toRemoveVote\<close>

text \<open>
  C2, amended. For every snapshot, a machine id whose status state is Primary is in the final
  \<^verbatim>\<open>toRemoveVote\<close> (after the quorum adjuster) only if the classifier put it there, that is,
  only if its machine does not want the vote while its member votes; the adjuster itself
  never adds the primary. And when no voter is kept and none is to be added, the adjuster
  takes the primary out of \<^verbatim>\<open>toRemoveVote\<close>. So a primary whose machine wants the vote is never
  demoted, whatever the kept voter count.
\<close>

theorem primary_removed_only_by_classifier:
  assumes "toRemoveVote p = []"
    and "mid \<in> set (toRemoveVote (reviewed info p))"
    and "isPrimaryMember info mid"
  shows "mid \<in> set (toRemoveVote (classified info p)) \<and>
         (\<exists>m. machines info mid = Some m \<and> \<not> WantsVote m) \<and>
         votingIn (recognised info) mid \<and>
         \<not> (keptVoters (classified info p) = 0 \<and> toAddVote (classified info p) = [])"
proof -
  from reviewPeerGroupChanges_toRemoveVote [of "classified info p" info] assms(2,3)
  have c: "mid \<in> set (toRemoveVote (classified info p))"
    by (auto simp: reviewed_def)
  have "bucketIds p ToRemoveVote = []" by (simp add: assms(1))
  from classified_bucket_mem [OF this, of mid info] c
  obtain m where m: "(mid, m) \<in> set (rangeMap (machines info))"
    and b: "bucketFor info (recognised info) (mid, m) = ToRemoveVote"
    by auto
  from m have "machines info mid = Some m" by (rule rangeMap_lookup)
  moreover from b have "\<not> WantsVote m" and "votingIn (recognised info) mid"
    by (simp_all add: bucketFor_def tableBucket_ToRemoveVote)
  moreover have "\<not> (keptVoters (classified info p) = 0 \<and> toAddVote (classified info p) = [])"
  proof
    assume "keptVoters (classified info p) = 0 \<and> toAddVote (classified info p) = []"
    then have "toRemoveVote (reviewed info p) =
        filter (\<lambda>mid. \<not> isPrimaryMember info mid) (toRemoveVote (classified info p))"
      unfolding reviewed_def by (simp add: reviewPeerGroupChanges_keeps_primary)
    with assms(2,3) show False by simp
  qed
  ultimately show ?thesis using c by blast
qed

text \<open>
  C2 as stated fails: on two voting machines of which the primary's no longer wants the vote,
  one voter is kept (\<open>kept > 0\<close>), the primary is in the final \<^verbatim>\<open>toRemoveVote\<close>, and
  \<^verbatim>\<open>desiredPeerGroup\<close> returns it as a non-voting member.
\<close>

theorem primaryLeaves_primary_demoted:
  "newPeerGroupInfo primaryLeavesMachines primaryLeavesStatuses primaryLeavesMembers 37017 [] =
     Inr primaryLeavesInfo \<and>
   getMongoAddresses initialChanges primaryLeavesInfo = Inr primaryLeavesChecked \<and>
   keptVoters (classified primaryLeavesInfo primaryLeavesChecked) = 1 \<and>
   isPrimaryMember primaryLeavesInfo ''0'' \<and>
   ''0'' \<in> set (toRemoveVote (reviewed primaryLeavesInfo primaryLeavesChecked)) \<and>
   desiredPeerGroup primaryLeavesInfo =
     Some ((Some [''0'' \<mapsto> (taggedMember 1 ''10.0.0.1:37017'' ''0'' (Some 0))\<lparr>Priority := Some 0\<rparr>,
                  ''1'' \<mapsto> taggedMember 2 ''10.0.0.2:37017'' ''1'' None],
            Some [''0'' \<mapsto> False, ''1'' \<mapsto> True], None),
           primaryLeavesInfo)"
proof -
  have "isPrimaryMember primaryLeavesInfo ''0''"
    by (simp add: isPrimaryMember_def primaryLeavesInfo_def statusOf_def)
  moreover have "''0'' \<in> set (toRemoveVote (reviewed primaryLeavesInfo primaryLeavesChecked))"
    by (simp add: primaryLeaves_reviewed primaryLeavesClassified_def)
  ultimately show ?thesis
    by (simp add: primaryLeaves_assembled primaryLeaves_addresses primaryLeaves_classified
        primaryLeaves_keptVoters primaryLeaves_desired)
qed

theorem primary_removed_only_by_classifier_witness:
  "toRemoveVote primaryLeavesChecked = [] \<and>
   ''0'' \<in> set (toRemoveVote (reviewed primaryLeavesInfo primaryLeavesChecked)) \<and>
   isPrimaryMember primaryLeavesInfo ''0'' \<and>
   ''0'' \<in> set (toRemoveVote (classified primaryLeavesInfo primaryLeavesChecked)) \<and>
   machines primaryLeavesInfo ''0'' = Some (tracker False ''10.0.0.1:37017'') \<and>
   \<not> WantsVote (tracker False ''10.0.0.1:37017'')"
proof -
  have e: "toRemoveVote primaryLeavesChecked = []"
    by (simp add: primaryLeavesChecked_def initialChanges_def)
  have r: "''0'' \<in> set (toRemoveVote (reviewed primaryLeavesInfo primaryLeavesChecked))"
    by (simp add: primaryLeaves_reviewed primaryLeavesClassified_def)
  have p: "isPrimaryMember primaryLeavesInfo ''0''"
    by (simp add: isPrimaryMember_def primaryLeavesInfo_def statusOf_def)
  have m: "machines primaryLeavesInfo ''0'' = Some (tracker False ''10.0.0.1:37017'')"
    by (simp add: primaryLeavesInfo_def primaryLeavesMachines_def)
  from primary_removed_only_by_classifier [OF e r p] e r p m show ?thesis
    by auto
qed
subsection \<open>C3: the error for a voting extra member\<close>

text \<open>
  C3. For every snapshot, \<^verbatim>\<open>desiredPeerGroup\<close> returns the error for an extra voting member
  if and only if some member of \<^verbatim>\<open>extra\<close> is voting (its votes are nil or greater than 0);
  and whenever it returns that error, the members map and the voting map it returns are both
  nil, the info is as it was, and the member the error names is a voting member of
  \<^verbatim>\<open>extra\<close>. (The other error of \<^verbatim>\<open>desiredPeerGroup\<close>, from the address selector, is a
  different error.)
\<close>

theorem desiredPeerGroup_extra_voting_error:
  "((\<exists>ms vs member info'.
        desiredPeerGroup info = Some ((ms, vs, Some (ErrExtraVotingMember member)), info'))
      \<longleftrightarrow> (\<exists>member\<in>set (extra info). isVotingMember member)) \<and>
   (\<forall>ms vs member info'.
        desiredPeerGroup info = Some ((ms, vs, Some (ErrExtraVotingMember member)), info')
        \<longrightarrow> ms = None \<and> vs = None \<and> info' = info \<and>
            member \<in> set (extra info) \<and> isVotingMember member)"
proof -
  have only: "ms = None \<and> vs = None \<and> info' = info \<and> member \<in> set (extra info) \<and> isVotingMember member"
    if "desiredPeerGroup info = Some ((ms, vs, Some (ErrExtraVotingMember member)), info')"
    for ms vs member info'
  proof -
    from desiredPeerGroup_error_cases [OF that]
    have nil: "ms = None \<and> vs = None \<and> info' = info"
      and "checkExtraMembers initialChanges (extra info) = Inl (ErrExtraVotingMember member) \<or>
          (\<exists>p0. getMongoAddresses p0 info = Inl (ErrExtraVotingMember member))"
      by auto
    then have "checkExtraMembers initialChanges (extra info) = Inl (ErrExtraVotingMember member)"
      by (auto dest: getMongoAddresses_Inl)
    then have "find isVotingMember (extra info) = Some member"
      by (simp add: checkExtraMembers_Inl)
    from find_Some_set [OF this] nil show ?thesis by simp
  qed
  have "\<exists>member. desiredPeerGroup info = Some ((None, None, Some (ErrExtraVotingMember member)), info)"
    if "\<exists>member\<in>set (extra info). isVotingMember member"
  proof -
    from that have "find isVotingMember (extra info) \<noteq> None"
      by (simp add: find_None_conv)
    then obtain member where "find isVotingMember (extra info) = Some member" by auto
    then have "desiredPeerGroup info = Some ((None, None, Some (ErrExtraVotingMember member)), info)"
      by (simp add: desiredPeerGroup_def checkExtraMembers_def)
    then show ?thesis ..
  qed
  with only show ?thesis by blast
qed

theorem desiredPeerGroup_extra_voting_error_witness:
  "newPeerGroupInfo [''0'' \<mapsto> tracker True ''10.0.0.1:37017''] [statusOf 1 PrimaryState True]
     [taggedMember 1 ''10.0.0.1:37017'' ''0'' None, untaggedMember 2 ''10.0.0.2:37017'' (Some 1)]
     37017 [] = Inr extraVoterInfo \<and>
   isVotingMember (untaggedMember 2 ''10.0.0.2:37017'' (Some 1)) \<and>
   desiredPeerGroup extraVoterInfo =
     Some ((None, None, Some (ErrExtraVotingMember (untaggedMember 2 ''10.0.0.2:37017'' (Some 1)))),
           extraVoterInfo)"
proof -
  have v: "isVotingMember (untaggedMember 2 ''10.0.0.2:37017'' (Some 1))"
    by (simp add: isVotingMember_def untaggedMember_def)
  have ex: "extra extraVoterInfo = [untaggedMember 2 ''10.0.0.2:37017'' (Some 1)]"
    by (simp add: extraVoterInfo_def)
  have "\<exists>member\<in>set (extra extraVoterInfo). isVotingMember member"
    using v by (simp add: ex)
  with desiredPeerGroup_extra_voting_error [of extraVoterInfo]
  obtain ms vs member info' where
    d: "desiredPeerGroup extraVoterInfo = Some ((ms, vs, Some (ErrExtraVotingMember member)), info')"
    by blast
  with desiredPeerGroup_extra_voting_error [of extraVoterInfo]
  have "ms = None \<and> vs = None \<and> info' = extraVoterInfo \<and> member \<in> set (extra extraVoterInfo)"
    by blast
  with d v extraVoter_assembled show ?thesis by (simp add: ex)
qed
subsection \<open>C4: the classifier follows the table\<close>

text \<open>
  C4. For every snapshot (a finite map of machines), when the five buckets start empty as in
  \<^verbatim>\<open>desiredPeerGroup\<close>: a machine id is in a bucket after the classifier exactly when it is
  a known machine and the bucket is the one the table gives for (wantsVote, isVoting, ready,
  member exists), where isVoting and ready are read from the recognised members and the
  statuses; and no bucket holds a machine id twice. So every known machine id is in exactly
  one of the five buckets, once, and no other id is in any.
\<close>

theorem classifier_table:
  assumes "finite (dom (machines info))"
    and "\<forall>b. bucketIds p b = []"
  shows "(mid \<in> set (bucketIds (classified info p) b) \<longleftrightarrow>
            (\<exists>m. machines info mid = Some m \<and>
                 b = tableBucket (WantsVote m) (votingIn (recognised info) mid) (readyIn info mid)
                       (recognised info mid \<noteq> None))) \<and>
         distinct (bucketIds (classified info p) b)"
proof -
  have eq: "bucketIds (classified info p) b =
      map fst (filter (\<lambda>e. bucketFor info (recognised info) e = b) (rangeMap (machines info)))"
    using assms(2) by (simp add: classified_bucketIds)
  have "mid \<in> set (bucketIds (classified info p) b) \<longleftrightarrow>
          (\<exists>m. (mid, m) \<in> set (rangeMap (machines info)) \<and> bucketFor info (recognised info) (mid, m) = b)"
    unfolding eq by force
  also have "\<dots> \<longleftrightarrow> (\<exists>m. machines info mid = Some m \<and>
                 b = tableBucket (WantsVote m) (votingIn (recognised info) mid) (readyIn info mid)
                       (recognised info mid \<noteq> None))"
    using assms(1) by (auto simp: set_rangeMap bucketFor_def)
  finally have mem: "mid \<in> set (bucketIds (classified info p) b) \<longleftrightarrow>
            (\<exists>m. machines info mid = Some m \<and>
                 b = tableBucket (WantsVote m) (votingIn (recognised info) mid) (readyIn info mid)
                       (recognised info mid \<noteq> None))" .
  have "distinct (bucketIds (classified info p) b)"
    unfolding eq by (rule distinct_map_fst_filter) (rule distinct_rangeMap_keys)
  with mem show ?thesis by blast
qed



lemma finite_fourMachines: "finite (dom fourMachines)"
  by (simp add: fourMachines_def)

theorem classifier_table_witness:
  "newPeerGroupInfo fourMachines fourthReadyStatuses fourthReadyMembers 37017 [] = Inr fourthReadyInfo \<and>
   finite (dom (machines fourthReadyInfo)) \<and> (\<forall>b. bucketIds initialChanges b = []) \<and>
   ''3'' \<in> set (bucketIds (classified fourthReadyInfo initialChanges) ToAddVote) \<and>
   ''3'' \<notin> set (bucketIds (classified fourthReadyInfo initialChanges) ToKeepNonVoting) \<and>
   distinct (bucketIds (classified fourthReadyInfo initialChanges) ToAddVote)"
proof -
  have f: "finite (dom (machines fourthReadyInfo))"
    by (simp add: fourthReadyInfo_def finite_fourMachines)
  have e: "\<forall>b. bucketIds initialChanges b = []"
    by (simp add: initialChanges_buckets)
  have m: "machines fourthReadyInfo ''3'' = Some (tracker True ''10.0.0.4:37017'')"
    by (simp add: fourthReadyInfo_def fourMachines_def)
  have v: "\<not> votingIn (recognised fourthReadyInfo) ''3''"
    by (simp add: votingIn_def fourthReadyInfo_def taggedMember_def)
  have r: "readyIn fourthReadyInfo ''3''"
    by (simp add: readyIn_def fourthReadyInfo_def statusOf_def)
  have w: "WantsVote (tracker True ''10.0.0.4:37017'')"
    by (simp add: tracker_def)
  from classifier_table [OF f e, of "''3''" ToAddVote]
       classifier_table [OF f e, of "''3''" ToKeepNonVoting] f e m v r w fourthReady_assembled
  show ?thesis by simp
qed
subsection \<open>C5: an even projected count drops the last candidate\<close>

text \<open>
  C5. For every snapshot in which the projected voter count (the kept voters plus the
  length of \<^verbatim>\<open>toAddVote\<close>, both after the classifier) is even and \<^verbatim>\<open>toAddVote\<close> is not
  empty, the quorum adjuster removes the last element of \<^verbatim>\<open>toAddVote\<close> and changes nothing
  else: \<^verbatim>\<open>toRemoveVote\<close>, \<^verbatim>\<open>toKeepVoting\<close> and every other field stay. The classifier
  appended the machine ids in sorted order, so that \<^verbatim>\<open>toAddVote\<close> is sorted and its last
  element is its greatest machine id.
\<close>

theorem review_drops_last_toAddVote:
  assumes "toAddVote p = []"
    and "even (keptVoters (classified info p) + int (length (toAddVote (classified info p))))"
    and "toAddVote (classified info p) \<noteq> []"
  shows "reviewed info p = (classified info p)\<lparr>toAddVote := butlast (toAddVote (classified info p))\<rparr> \<and>
         toAddVote (classified info p) = toAddVote (reviewed info p) @ [last (toAddVote (classified info p))] \<and>
         sorted (toAddVote (classified info p))"
proof -
  have r: "reviewed info p = (classified info p)\<lparr>toAddVote := butlast (toAddVote (classified info p))\<rparr>"
    unfolding reviewed_def by (rule reviewPeerGroupChanges_trims [OF assms(2,3)])
  have "toAddVote (classified info p) = butlast (toAddVote (classified info p)) @ [last (toAddVote (classified info p))]"
    using assms(3) by simp
  then have l: "toAddVote (classified info p) = toAddVote (reviewed info p) @ [last (toAddVote (classified info p))]"
    by (simp add: r)
  have "sorted (bucketIds (classified info p) ToAddVote)"
    by (rule classified_sorted) (simp add: assms(1))
  then have s: "sorted (toAddVote (classified info p))" by simp
  from r l s show ?thesis by blast
qed



theorem review_drops_last_toAddVote_witness:
  "newPeerGroupInfo fourMachines fourthReadyStatuses fourthReadyMembers 37017 [] = Inr fourthReadyInfo \<and>
   toAddVote initialChanges = [] \<and>
   even (keptVoters (classified fourthReadyInfo initialChanges)
         + int (length (toAddVote (classified fourthReadyInfo initialChanges)))) \<and>
   toAddVote (classified fourthReadyInfo initialChanges) = [''3''] \<and>
   toAddVote (reviewed fourthReadyInfo initialChanges) = [] \<and>
   toKeepVoting (reviewed fourthReadyInfo initialChanges) = [''0'', ''1'', ''2'']"
proof -
  have e: "toAddVote initialChanges = []"
    by (simp add: initialChanges_def)
  have k: "keptVoters (classified fourthReadyInfo initialChanges) = 3"
    unfolding fourthReady_classified
    by (simp add: keptVoters_def currVoters_def rangeMap_def isVotingMember_def
        initialChanges_def fourthReadyInfo_def value_defs)
  have a: "toAddVote (classified fourthReadyInfo initialChanges) = [''3'']"
    by (simp add: fourthReady_classified)
  have ev: "even (keptVoters (classified fourthReadyInfo initialChanges)
         + int (length (toAddVote (classified fourthReadyInfo initialChanges))))"
    by (simp add: k a)
  have ne: "toAddVote (classified fourthReadyInfo initialChanges) \<noteq> []"
    by (simp add: a)
  have kv: "toKeepVoting (classified fourthReadyInfo initialChanges) = [''0'', ''1'', ''2'']"
    by (simp add: fourthReady_classified)
  from review_drops_last_toAddVote [OF e ev ne] e ev a kv fourthReady_assembled show ?thesis
    by simp
qed
subsection \<open>C6: a created member that is not signalled\<close>

text \<open>
  C6 fails on the code. The member that the second loop of \<^verbatim>\<open>createNonVotingMember\<close> creates
  for a machine of \<^verbatim>\<open>toKeepNonVoting\<close> that has none sets \<^verbatim>\<open>isChanged\<close> nowhere: \<^verbatim>\<open>adjustVotes\<close>
  looks at \<^verbatim>\<open>toAddVote\<close>, \<^verbatim>\<open>toRemoveVote\<close> and \<^verbatim>\<open>toKeepCreateNonVotingMember\<close> only, and
  \<^verbatim>\<open>updateAddresses\<close> skips a machine whose selected address is empty. On the snapshot below
  machine \<open>1\<close> does not want the vote, has no member and no address: a non-voting member
  with id 2 is created for it in the proposal and \<^verbatim>\<open>info.maxMemberId\<close> becomes 2, yet
  \<^verbatim>\<open>desiredPeerGroup\<close> returns the nil members map. The members of the first loop, for
  \<^verbatim>\<open>toKeepCreateNonVotingMember\<close>, are signalled, and the comment of \<^verbatim>\<open>desiredPeerGroup\<close> promises
  the nil map only when the new peer group does not differ from the input.
\<close>

theorem quiet_created_member_not_returned:
  "newPeerGroupInfo quietMachines quietStatuses quietMembers 37017 [] = Inr quietInfo \<and>
   checkExtraMembers initialChanges (extra quietInfo) = Inr initialChanges \<and>
   getMongoAddresses initialChanges quietInfo = Inr quietChecked \<and>
   toKeepNonVoting (reviewed quietInfo quietChecked) = [''1''] \<and>
   recognised quietInfo ''1'' = None \<and>
   members (fst (synthesised quietInfo quietChecked)) ''1'' = Some (newNonVotingMember ''1'' 2) \<and>
   desiredPeerGroup quietInfo =
     Some ((None, Some [''0'' \<mapsto> True, ''1'' \<mapsto> False], None), quietInfo\<lparr>maxMemberId := 2\<rparr>)"
proof -
  have "toKeepNonVoting (reviewed quietInfo quietChecked) = [''1'']"
    by (simp add: quiet_reviewed quietClassified_def)
  moreover have "recognised quietInfo ''1'' = None"
    by (simp add: quietInfo_def)
  moreover have "members (fst (synthesised quietInfo quietChecked)) ''1'' = Some (newNonVotingMember ''1'' 2)"
    by (simp add: quiet_synthesised)
  ultimately show ?thesis
    using quiet_assembled quiet_checkExtra quiet_addresses quiet_desired by simp
qed
subsection \<open>C7: member ids grow, unless the counter wraps\<close>

text \<open>
  C7, amended. \<^verbatim>\<open>maxMemberId\<close> of an assembled snapshot is at least \<open>-1\<close> and at least the
  id of every input member, extras included. Member synthesis gives the \<open>i\<close>-th member it
  creates (counting from 0) the id \<open>maxMemberId + 1 + i\<close>, one more than the counter after
  \<open>i\<close> creations, and leaves the counter at \<open>maxMemberId\<close> plus the number of members it
  created; every other machine id keeps its recognised member. Provided the counter does not
  leave the 64-bit range (the old \<open>maxMemberId\<close> plus the number of created members is
  below \<open>2^63\<close>), the counter after synthesis is at least the counter before, and every
  new member's id is strictly greater than every input member's id and than every id
  created before it.
\<close>

theorem maxMemberId_monotone_without_overflow:
  assumes "newPeerGroupInfo ms stss mems port space = Inr info"
    and "\<forall>b. bucketIds p b = []"
    and "sint (maxMemberId info) + int (length (createdIds (reviewed info p))) < 2 ^ 63"
  shows "- 1 \<le>s maxMemberId info \<and>
         (\<forall>m\<in>set mems. Id m \<le>s maxMemberId info) \<and>
         snd (synthesised info p) = maxMemberId info + of_nat (length (createdIds (reviewed info p))) \<and>
         maxMemberId info \<le>s snd (synthesised info p) \<and>
         (\<forall>mid. mid \<notin> set (createdIds (reviewed info p)) \<longrightarrow>
            members (fst (synthesised info p)) mid = recognised info mid) \<and>
         (\<forall>i<length (createdIds (reviewed info p)).
            members (fst (synthesised info p)) (createdIds (reviewed info p) ! i) =
              Some (newNonVotingMember (createdIds (reviewed info p) ! i)
                      (maxMemberId info + 1 + of_nat i)) \<and>
            sint (maxMemberId info + 1 + of_nat i) = sint (maxMemberId info) + 1 + int i \<and>
            (\<forall>m\<in>set mems. Id m <s maxMemberId info + 1 + of_nat i) \<and>
            (\<forall>j<i. maxMemberId info + 1 + of_nat j <s maxMemberId info + 1 + of_nat i))"
proof -
  let ?ids = "createdIds (reviewed info p)"
  let ?max = "maxMemberId info"
  note I = newPeerGroupInfo_Inr [OF assms(1)]
  have d1: "distinct (toKeepCreateNonVotingMember (reviewed info p))"
    by (rule reviewed_distinct(1) [OF assms(2)])
  have d2: "distinct (toKeepNonVoting (reviewed info p))"
    by (rule reviewed_distinct(2) [OF assms(2)])
  note S = createNonVotingMember_result [OF d1 d2, where maxId = ?max, folded synthesised_def]
  have lo: "- 1 \<le>s ?max" by (rule I(6))
  have obs: "\<forall>m\<in>set mems. Id m \<le>s ?max" by (rule I(7))
  have after: "snd (synthesised info p) = ?max + of_nat (length ?ids)" by (rule S(2))
  have "sint (?max + of_nat (length ?ids)) = sint ?max + int (length ?ids)"
    by (rule sint_add_of_nat [OF assms(3)])
  then have mono: "?max \<le>s snd (synthesised info p)"
    by (simp add: after word_sle_eq)
  have other: "\<forall>mid. mid \<notin> set ?ids \<longrightarrow> members (fst (synthesised info p)) mid = recognised info mid"
    using S(3) by simp
  have val: "sint (?max + 1 + of_nat i) = sint ?max + 1 + int i" if "i < length ?ids" for i
  proof -
    from that assms(3) have "sint ?max + int (Suc i) < 2 ^ 63" by simp
    from sint_add_of_nat [OF this] show ?thesis by (simp add: ac_simps)
  qed
  have new: "members (fst (synthesised info p)) (?ids ! i) =
              Some (newNonVotingMember (?ids ! i) (?max + 1 + of_nat i)) \<and>
            sint (?max + 1 + of_nat i) = sint ?max + 1 + int i \<and>
            (\<forall>m\<in>set mems. Id m <s ?max + 1 + of_nat i) \<and>
            (\<forall>j<i. ?max + 1 + of_nat j <s ?max + 1 + of_nat i)" if i: "i < length ?ids" for i
  proof -
    have "\<forall>m\<in>set mems. Id m <s ?max + 1 + of_nat i"
      using obs val [OF i] by (auto simp: word_sle_eq word_sless_alt)
    moreover have "\<forall>j<i. ?max + 1 + of_nat j <s ?max + 1 + of_nat i"
      using val [OF i] val i by (simp add: word_sless_alt)
    ultimately show ?thesis using S(4) [OF i] val [OF i] by blast
  qed
  from lo obs after mono other new show ?thesis by blast
qed

theorem maxMemberId_monotone_without_overflow_witness:
  "newPeerGroupInfo quietMachines quietStatuses quietMembers 37017 [] = Inr quietInfo \<and>
   (\<forall>b. bucketIds quietChecked b = []) \<and>
   createdIds (reviewed quietInfo quietChecked) = [''1''] \<and>
   sint (maxMemberId quietInfo) + int (length (createdIds (reviewed quietInfo quietChecked))) < 2 ^ 63 \<and>
   maxMemberId quietInfo = 1 \<and>
   snd (synthesised quietInfo quietChecked) = 2 \<and>
   members (fst (synthesised quietInfo quietChecked)) ''1'' = Some (newNonVotingMember ''1'' 2)"
proof -
  have e: "\<forall>b. bucketIds quietChecked b = []"
    by (simp add: quietChecked_def initialChanges_addrs_buckets)
  have c: "createdIds (reviewed quietInfo quietChecked) = [''1'']"
    unfolding quiet_reviewed
    by (simp add: createdIds_def quietClassified_def quiet_defs)
  have m: "maxMemberId quietInfo = 1"
    by (simp add: quietInfo_def)
  have n: "sint (maxMemberId quietInfo) + int (length (createdIds (reviewed quietInfo quietChecked))) < 2 ^ 63"
    by (simp add: c m)
  from maxMemberId_monotone_without_overflow [OF quiet_assembled e n] quiet_assembled e c n m
  show ?thesis by simp
qed

text \<open>
  C7 as stated fails: when the greatest member id of the snapshot is the greatest 64-bit
  integer, the member created for a new machine takes the least one, and \<^verbatim>\<open>maxMemberId\<close>
  after the call is below \<^verbatim>\<open>maxMemberId\<close> before.
\<close>

theorem lastId_counter_wraps:
  "newPeerGroupInfo lastIdMachines lastIdStatuses lastIdMembers 37017 [] = Inr lastIdInfo \<and>
   maxMemberId lastIdInfo = 9223372036854775807 \<and>
   desiredPeerGroup lastIdInfo =
     Some ((Some [''0'' \<mapsto> taggedMember 9223372036854775807 ''10.0.0.1:37017'' ''0'' None,
                  ''1'' \<mapsto> (newNonVotingMember ''1'' (9223372036854775807 + 1))
                              \<lparr>Address := ''10.0.0.2:37017''\<rparr>],
            Some [''0'' \<mapsto> True, ''1'' \<mapsto> False], None),
           lastIdInfo\<lparr>maxMemberId := 9223372036854775807 + 1\<rparr>) \<and>
   sint (9223372036854775807 + 1 :: go_int) = - 9223372036854775808 \<and>
   Id (newNonVotingMember ''1'' (9223372036854775807 + 1))
     <s Id (taggedMember 9223372036854775807 ''10.0.0.1:37017'' ''0'' None) \<and>
   \<not> maxMemberId lastIdInfo \<le>s maxMemberId (lastIdInfo\<lparr>maxMemberId := 9223372036854775807 + 1\<rparr>)"
proof -
  have "maxMemberId lastIdInfo = 9223372036854775807"
    by (simp add: lastIdInfo_def)
  moreover have "sint (9223372036854775807 + 1 :: go_int) = - 9223372036854775808"
    by simp
  moreover have "Id (newNonVotingMember ''1'' (9223372036854775807 + 1))
     <s Id (taggedMember 9223372036854775807 ''10.0.0.1:37017'' ''0'' None)"
    by (simp add: taggedMember_def word_sless_alt)
  moreover have "\<not> maxMemberId lastIdInfo \<le>s maxMemberId (lastIdInfo\<lparr>maxMemberId := 9223372036854775807 + 1\<rparr>)"
    by (simp add: lastIdInfo_def word_sle_eq)
  ultimately show ?thesis
    using lastId_assembled lastId_desired by simp
qed
subsection \<open>C8: where the assembler puts each member\<close>

text \<open>
  C8, amended. For every non-empty member list and every member \<open>m\<close> of it: \<open>m\<close> is in
  \<^verbatim>\<open>extra\<close> exactly when it is not associated (it has no machine-id tag, or the tag names
  no known machine); \<^verbatim>\<open>recognised\<close> holds \<open>m\<close> only under the machine id of its own tag, so
  under at most one id; \<open>m\<close> is never in both; and when \<open>m\<close> is associated, \<^verbatim>\<open>recognised\<close>
  holds under its machine id the last member of the list that carries this tag, which is
  \<open>m\<close> itself when no later member carries it. A member whose tag a later member repeats is
  in neither.
\<close>

theorem newPeerGroupInfo_places_members:
  assumes "newPeerGroupInfo ms stss mems port space = Inr info"
    and "m \<in> set mems"
  shows "(m \<in> set (extra info) \<longleftrightarrow> \<not> associated ms m) \<and>
         (\<forall>mid. recognised info mid = Some m \<longrightarrow> Tags m jujuMachineKey = Some mid \<and> associated ms m) \<and>
         \<not> (m \<in> set (extra info) \<and> m \<in> ran (recognised info)) \<and>
         (\<forall>mid. Tags m jujuMachineKey = Some mid \<and> associated ms m \<longrightarrow>
            recognised info mid = Some (last (filter (\<lambda>m'. Tags m' jujuMachineKey = Some mid) mems)))"
proof -
  note I = newPeerGroupInfo_Inr [OF assms(1)]
  have ex: "m \<in> set (extra info) \<longleftrightarrow> \<not> associated ms m"
    using assms(2) by (simp add: I(3))
  have rec: "Tags m jujuMachineKey = Some mid \<and> associated ms m" if "recognised info mid = Some m" for mid
  proof -
    from that have "ms mid \<noteq> None" and f: "find (\<lambda>m. Tags m jujuMachineKey = Some mid) (rev mems) = Some m"
      by (auto simp: I(4) split: if_splits)
    from find_rev_Some_set [OF f] have "Tags m jujuMachineKey = Some mid" by simp
    with \<open>ms mid \<noteq> None\<close> show ?thesis by (simp add: associated_def)
  qed
  have both: "\<not> (m \<in> set (extra info) \<and> m \<in> ran (recognised info))"
    using ex rec by (auto simp: ran_def)
  have last: "recognised info mid = Some (last (filter (\<lambda>m'. Tags m' jujuMachineKey = Some mid) mems))"
    if "Tags m jujuMachineKey = Some mid \<and> associated ms m" for mid
  proof -
    from that have "ms mid \<noteq> None" by (auto simp: associated_def)
    moreover from that assms(2) have "filter (\<lambda>m'. Tags m' jujuMachineKey = Some mid) mems \<noteq> []"
      by (auto simp: filter_empty_conv)
    ultimately show ?thesis by (simp add: I(4) find_rev_last)
  qed
  from ex rec both last show ?thesis by blast
qed

text \<open>Two members that carry the tag of machine \<open>0\<close>: the second overwrites the first
  in \<^verbatim>\<open>recognised\<close>, and the first is not appended to \<^verbatim>\<open>extra\<close>.\<close>

definition sameTagMembers :: "Member list" where
  "sameTagMembers = [taggedMember 1 ''10.0.0.1:37017'' ''0'' None,
                     taggedMember 2 ''10.0.0.2:37017'' ''0'' None]"

definition sameTagInfo :: peerGroupInfo where
  "sameTagInfo =
     \<lparr>machines = [''0'' \<mapsto> tracker True ''10.0.0.1:37017''],
      recognised = [''0'' \<mapsto> taggedMember 2 ''10.0.0.2:37017'' ''0'' None],
      statuses = Map.empty, extra = [], maxMemberId = 2, mongoPort = 37017, haSpace = []\<rparr>"

text \<open>
  C8 as stated fails: the first of two members with the same machine-id tag appears neither
  in \<^verbatim>\<open>recognised\<close> nor in \<^verbatim>\<open>extra\<close>.
\<close>

theorem sameTag_member_lost:
  "newPeerGroupInfo [''0'' \<mapsto> tracker True ''10.0.0.1:37017''] [] sameTagMembers 37017 [] = Inr sameTagInfo \<and>
   taggedMember 1 ''10.0.0.1:37017'' ''0'' None \<in> set sameTagMembers \<and>
   taggedMember 1 ''10.0.0.1:37017'' ''0'' None \<notin> set (extra sameTagInfo) \<and>
   taggedMember 1 ''10.0.0.1:37017'' ''0'' None \<notin> ran (recognised sameTagInfo)"
  by (simp add: newPeerGroupInfo_def addMember_def linkStatuses_def sameTagMembers_def sameTagInfo_def
      taggedMember_def word_sless_alt)

text \<open>A recognised member and one without a tag.\<close>

definition mixedMembers :: "Member list" where
  "mixedMembers = [taggedMember 1 ''10.0.0.1:37017'' ''0'' None,
                   untaggedMember 2 ''10.0.0.2:37017'' (Some 0)]"

theorem newPeerGroupInfo_places_members_witness:
  "newPeerGroupInfo [''0'' \<mapsto> tracker True ''10.0.0.1:37017''] [] mixedMembers 37017 [] =
     Inr \<lparr>machines = [''0'' \<mapsto> tracker True ''10.0.0.1:37017''],
          recognised = [''0'' \<mapsto> taggedMember 1 ''10.0.0.1:37017'' ''0'' None],
          statuses = Map.empty, extra = [untaggedMember 2 ''10.0.0.2:37017'' (Some 0)],
          maxMemberId = 2, mongoPort = 37017, haSpace = []\<rparr> \<and>
   untaggedMember 2 ''10.0.0.2:37017'' (Some 0) \<in> set mixedMembers \<and>
   \<not> associated [''0'' \<mapsto> tracker True ''10.0.0.1:37017''] (untaggedMember 2 ''10.0.0.2:37017'' (Some 0))"
proof -
  let ?ms = "[''0'' \<mapsto> tracker True ''10.0.0.1:37017'']"
  let ?info = "\<lparr>machines = ?ms,
          recognised = [''0'' \<mapsto> taggedMember 1 ''10.0.0.1:37017'' ''0'' None],
          statuses = Map.empty, extra = [untaggedMember 2 ''10.0.0.2:37017'' (Some 0)],
          maxMemberId = 2, mongoPort = 37017, haSpace = []\<rparr>"
  have h1: "newPeerGroupInfo ?ms [] mixedMembers 37017 [] = Inr ?info"
    by (simp add: newPeerGroupInfo_def addMember_def linkStatuses_def mixedMembers_def
        taggedMember_def untaggedMember_def word_sless_alt)
  have h2: "untaggedMember 2 ''10.0.0.2:37017'' (Some 0) \<in> set mixedMembers"
    by (simp add: mixedMembers_def)
  from newPeerGroupInfo_places_members [OF h1 h2] h1 h2 show ?thesis
    by simp
qed

subsection \<open>C9: the machine ids that get a status\<close>








subsection \<open>C10: adjustVotes never meets a nil member\<close>

text \<open>
  C10. For every assembled snapshot, at the point where \<^verbatim>\<open>adjustVotes\<close> runs (after
  \<^verbatim>\<open>getMachinesVoting\<close>), every machine id of \<^verbatim>\<open>toAddVote\<close>, \<^verbatim>\<open>toRemoveVote\<close> and
  \<^verbatim>\<open>toKeepCreateNonVotingMember\<close> has a member in the proposal members map; so \<^verbatim>\<open>adjustVotes\<close>
  does not apply \<^verbatim>\<open>setMemberVoting\<close> to a nil member, and \<^verbatim>\<open>desiredPeerGroup\<close> returns (an
  error or a proposal) without a nil dereference. The changes \<open>p\<close> are those that enter the
  classifier, whose buckets are empty.
\<close>

theorem adjustVotes_members_present:
  assumes "newPeerGroupInfo ms stss mems port space = Inr info"
    and "\<forall>b. bucketIds p b = []"
  shows "(\<forall>mid\<in>set (toAddVote (beforeAdjust info p)) \<union> set (toRemoveVote (beforeAdjust info p)) \<union>
              set (toKeepCreateNonVotingMember (beforeAdjust info p)).
            members (beforeAdjust info p) mid \<noteq> None) \<and>
         adjustVotes (beforeAdjust info p) \<noteq> None \<and>
         desiredPeerGroup info \<noteq> None"
proof -
  have present: "\<forall>mid\<in>set (toAddVote (beforeAdjust info q)) \<union> set (toRemoveVote (beforeAdjust info q)) \<union>
              set (toKeepCreateNonVotingMember (beforeAdjust info q)).
            members (beforeAdjust info q) mid \<noteq> None" if "\<forall>b. bucketIds q b = []" for q
    using beforeAdjust_members_present [OF assms(1) that] by blast
  have adjust: "adjustVotes (beforeAdjust info q) \<noteq> None" if "\<forall>b. bucketIds q b = []" for q
    using adjustVotes_Some [OF present [OF that]] by auto
  have "desiredPeerGroup info \<noteq> None"
  proof (cases "checkExtraMembers initialChanges (extra info)")
    case (Inl err)
    then show ?thesis by (simp add: desiredPeerGroup_def)
  next
    case p0: (Inr p0)
    show ?thesis
    proof (cases "getMongoAddresses p0 info")
      case (Inl err)
      with p0 show ?thesis by (simp add: desiredPeerGroup_def)
    next
      case (Inr p1)
      from checked_changes [OF p0 Inr] have "\<forall>b. bucketIds p1 b = []" by simp
      from adjust [OF this] obtain p2 where "adjustVotes (beforeAdjust info p1) = Some p2" by auto
      from desiredPeerGroup_Some [OF p0 Inr this] show ?thesis by simp
    qed
  qed
  with present [OF assms(2)] adjust [OF assms(2)] show ?thesis by blast
qed

theorem adjustVotes_members_present_witness:
  "newPeerGroupInfo primaryLeavesMachines primaryLeavesStatuses primaryLeavesMembers 37017 [] =
     Inr primaryLeavesInfo \<and>
   (\<forall>b. bucketIds primaryLeavesChecked b = []) \<and>
   ''0'' \<in> set (toRemoveVote (beforeAdjust primaryLeavesInfo primaryLeavesChecked)) \<and>
   members (beforeAdjust primaryLeavesInfo primaryLeavesChecked) ''0'' \<noteq> None \<and>
   adjustVotes (beforeAdjust primaryLeavesInfo primaryLeavesChecked) \<noteq> None \<and>
   desiredPeerGroup primaryLeavesInfo \<noteq> None"
proof -
  have e: "\<forall>b. bucketIds primaryLeavesChecked b = []"
    by (simp add: primaryLeavesChecked_def initialChanges_addrs_buckets)
  have r: "''0'' \<in> set (toRemoveVote (beforeAdjust primaryLeavesInfo primaryLeavesChecked))"
    by (simp add: primaryLeaves_beforeAdjust primaryLeavesClassified_def)
  from adjustVotes_members_present [OF primaryLeaves_assembled e] primaryLeaves_assembled e r
  show ?thesis by blast
qed

text \<open>
  The panic is a branch of the model that a snapshot not built by \<^verbatim>\<open>newPeerGroupInfo\<close> can
  reach: with a ready status for a known machine that has no recognised member, the machine
  is put in \<^verbatim>\<open>toAddVote\<close> and \<^verbatim>\<open>adjustVotes\<close> meets its nil member.
\<close>

definition orphanStatusInfo :: peerGroupInfo where
  "orphanStatusInfo =
     \<lparr>machines = [''0'' \<mapsto> tracker True ''10.0.0.1:37017''],
      recognised = Map.empty,
      statuses = [''0'' \<mapsto> statusOf 1 SecondaryState True],
      extra = [], maxMemberId = 1, mongoPort = 37017, haSpace = []\<rparr>"

lemma orphanStatus_beforeAdjust:
  "beforeAdjust orphanStatusInfo (initialChanges\<lparr>addrs := [''0'' \<mapsto> ''10.0.0.1:37017'']\<rparr>) =
     initialChanges\<lparr>addrs := [''0'' \<mapsto> ''10.0.0.1:37017''], toAddVote := [''0'']\<rparr>"
  by (simp add: voting_defs create_defs review_defs classify_defs orphanStatusInfo_def value_defs)

lemma orphanStatus_panics: "desiredPeerGroup orphanStatusInfo = None"
proof -
  have "checkExtraMembers initialChanges (extra orphanStatusInfo) = Inr initialChanges"
    by (simp add: checkExtraMembers_def orphanStatusInfo_def)
  moreover have "getMongoAddresses initialChanges orphanStatusInfo =
      Inr (initialChanges\<lparr>addrs := [''0'' \<mapsto> ''10.0.0.1:37017'']\<rparr>)"
    by (simp add: getMongoAddresses_def rangeMap_def orphanStatusInfo_def value_defs)
  moreover have "adjustVotes (initialChanges\<lparr>addrs := [''0'' \<mapsto> ''10.0.0.1:37017''],
      toAddVote := [''0'']\<rparr>) = None"
    by (simp add: adjustVotes_def initialChanges_def)
  ultimately show ?thesis
    by (simp add: desiredPeerGroup_def orphanStatus_beforeAdjust)
qed
end
